theory Spec2Isabelle
  imports Main
begin

section \<open>The syntax tree\<close>

text \<open>
  The transformer of \<^verbatim>\<open>googmodule.ts\<close> works on TypeScript syntax trees. A node has a
  kind with the children the code reads, and an optional \<^verbatim>\<open>original\<close> pointer, which
  \<^verbatim>\<open>ts.setOriginalNode\<close> sets and \<^verbatim>\<open>ts.getOriginalNode\<close> follows. Source positions
  (\<^verbatim>\<open>ts.setTextRange\<close>) are not part of the model.

  The kinds are those the code names, and the parenthesized expression and the
  \<^verbatim>\<open>yield\<close> expression, which the factory functions of TypeScript look for. Every other
  kind is \<open>OtherNode\<close>. It keeps what the code and the factory functions can read from
  a node they have not checked the kind of: a number for the kind, the operator
  precedence of the node and whether it associates to the right, and the properties
  \<^verbatim>\<open>text\<close>, \<^verbatim>\<open>expression\<close> and \<^verbatim>\<open>arguments\<close> where the kind has them (a template literal
  or a numeric literal has a text, a \<^verbatim>\<open>new\<close> expression an expression and arguments).

  A binary operator other than \<^verbatim>\<open>=\<close>, \<^verbatim>\<open>||\<close> and the comma is \<open>OtherToken\<close>, with a
  number for the operator, its precedence, and whether it associates to the right (as
  the compound assignments and \<^verbatim>\<open>**\<close> do).
\<close>

datatype token = EqualsToken | BarBarToken | CommaToken | OtherToken nat int bool

datatype node = Node (kind: syntaxKind) (original: "node option")
and syntaxKind =
    Identifier string
  | StringLiteral string bool
  | PropertyAccessExpression node string
  | CallExpression node "node list"
  | BinaryExpression node token node
  | ObjectLiteralExpression "objectLiteralElement list"
  | TrueKeyword
  | ParenthesizedExpression node
  | YieldExpression "node option"
  | ExpressionStatement node
  | VariableStatement "variableDeclaration list"
  | NotEmittedStatement
  | ImportDeclaration node
  | ExportDeclaration "node option"
  | OtherNode nat int bool "string option" "node option" "node list option"
and variableDeclaration = VariableDeclaration node "node option"
and objectLiteralElement = PropertyAssignment node node | OtherElement nat

text \<open>
  \<open>StringLiteral t q\<close>: the text and the \<^verbatim>\<open>singleQuote\<close> flag.
  \<open>PropertyAccessExpression e n\<close>: the expression and the text of the name identifier.
  \<open>CallExpression f args\<close>: the callee (\<^verbatim>\<open>expression\<close>) and \<^verbatim>\<open>arguments\<close>.
  \<open>ParenthesizedExpression e\<close>: the expression in the parentheses.
  \<open>YieldExpression e\<close>: the optional operand (\<^verbatim>\<open>expression\<close>).
  \<open>VariableStatement ds\<close>: the declarations of the statement's declaration list.
  \<open>VariableDeclaration n i\<close>: the binding name and the optional initializer.
  \<open>ImportDeclaration m\<close>, \<open>ExportDeclaration m\<close>: the module specifier, optional on an
  export declaration.
  \<open>OtherNode k p r t e args\<close>: the kind \<open>k\<close>, the precedence \<open>p\<close>, whether the node
  associates to the right, and the optional \<^verbatim>\<open>text\<close>, \<^verbatim>\<open>expression\<close> and
  \<^verbatim>\<open>arguments\<close>.
\<close>

datatype error = TypeError

subsection \<open>Type guards and property reads\<close>

definition isIdentifier :: "node \<Rightarrow> bool" where
  "isIdentifier n = (case kind n of Identifier _ \<Rightarrow> True | _ \<Rightarrow> False)"

definition isStringLiteral :: "node \<Rightarrow> bool" where
  "isStringLiteral n = (case kind n of StringLiteral _ _ \<Rightarrow> True | _ \<Rightarrow> False)"

definition isPropertyAccessExpression :: "node \<Rightarrow> bool" where
  "isPropertyAccessExpression n =
     (case kind n of PropertyAccessExpression _ _ \<Rightarrow> True | _ \<Rightarrow> False)"

definition isCallExpression :: "node \<Rightarrow> bool" where
  "isCallExpression n = (case kind n of CallExpression _ _ \<Rightarrow> True | _ \<Rightarrow> False)"

definition isBinaryExpression :: "node \<Rightarrow> bool" where
  "isBinaryExpression n = (case kind n of BinaryExpression _ _ _ \<Rightarrow> True | _ \<Rightarrow> False)"

definition isExpressionStatement :: "node \<Rightarrow> bool" where
  "isExpressionStatement n = (case kind n of ExpressionStatement _ \<Rightarrow> True | _ \<Rightarrow> False)"

definition isNotEmittedStatement :: "node \<Rightarrow> bool" where
  "isNotEmittedStatement n = (case kind n of NotEmittedStatement \<Rightarrow> True | _ \<Rightarrow> False)"

definition isImportDeclaration :: "node \<Rightarrow> bool" where
  "isImportDeclaration n = (case kind n of ImportDeclaration _ \<Rightarrow> True | _ \<Rightarrow> False)"

definition isExportDeclaration :: "node \<Rightarrow> bool" where
  "isExportDeclaration n = (case kind n of ExportDeclaration _ \<Rightarrow> True | _ \<Rightarrow> False)"

definition isYieldExpression :: "node \<Rightarrow> bool" where
  "isYieldExpression n = (case kind n of YieldExpression _ \<Rightarrow> True | _ \<Rightarrow> False)"

definition isParenthesizedExpression :: "node \<Rightarrow> bool" where
  "isParenthesizedExpression n = (case kind n of ParenthesizedExpression _ \<Rightarrow> True | _ \<Rightarrow> False)"

text \<open>
  Reading a property of a node gives \<^verbatim>\<open>undefined\<close> (\<open>None\<close>) on a kind that does not
  have it. \<^verbatim>\<open>text\<close> is the text of an identifier or of a string literal, and of the
  other kinds of literal, which are among the other nodes.
\<close>

definition textOf :: "node \<Rightarrow> string option" where
  "textOf n =
     (case kind n of
        Identifier t \<Rightarrow> Some t
      | StringLiteral t _ \<Rightarrow> Some t
      | OtherNode _ _ _ t _ _ \<Rightarrow> t
      | _ \<Rightarrow> None)"

definition expression :: "node \<Rightarrow> node option" where
  "expression n =
     (case kind n of
        PropertyAccessExpression e _ \<Rightarrow> Some e
      | CallExpression f _ \<Rightarrow> Some f
      | ParenthesizedExpression e \<Rightarrow> Some e
      | YieldExpression e \<Rightarrow> e
      | ExpressionStatement e \<Rightarrow> Some e
      | OtherNode _ _ _ _ e _ \<Rightarrow> e
      | _ \<Rightarrow> None)"

definition arguments :: "node \<Rightarrow> node list option" where
  "arguments n =
     (case kind n of
        CallExpression _ args \<Rightarrow> Some args
      | OtherNode _ _ _ _ _ args \<Rightarrow> args
      | _ \<Rightarrow> None)"

text \<open>
  \<^verbatim>\<open>escapedText\<close> of an identifier: TypeScript puts a third underscore before a name that
  starts with two.
\<close>

definition escapeLeadingUnderscores :: "string \<Rightarrow> string" where
  "escapeLeadingUnderscores s = (if take 2 s = ''__'' then CHR ''_'' # s else s)"

definition escapedText :: "node \<Rightarrow> string option" where
  "escapedText n = (case kind n of Identifier t \<Rightarrow> Some (escapeLeadingUnderscores t) | _ \<Rightarrow> None)"

text \<open>\<^verbatim>\<open>xs[i]\<close> of JavaScript is \<^verbatim>\<open>undefined\<close> past the end of the array.\<close>

definition at :: "'a list \<Rightarrow> nat \<Rightarrow> 'a option" where
  "at xs i = (if i < length xs then Some (xs ! i) else None)"

text \<open>A \<^verbatim>\<open>string|null\<close> in a condition: \<^verbatim>\<open>null\<close> and the empty string are falsy.\<close>

definition truthy :: "string option \<Rightarrow> bool" where
  "truthy s = (case s of None \<Rightarrow> False | Some t \<Rightarrow> t \<noteq> [])"

text \<open>An optional boolean flag in a condition: \<^verbatim>\<open>undefined\<close> is falsy.\<close>

definition flag :: "bool option \<Rightarrow> bool" where
  "flag b = (b = Some True)"

subsection \<open>Operator precedence\<close>

text \<open>
  The factory functions of TypeScript put an operand in parentheses where the printer
  would otherwise give a text that reads as another tree. They decide by the operator
  precedence of the operand, \<^verbatim>\<open>getExpressionPrecedence\<close>, and by its associativity,
  both taken after \<^verbatim>\<open>skipPartiallyEmittedExpressions\<close>: the precedence and the
  associativity of an other node are those TypeScript finds for it in this way (for a
  partially emitted expression, those of the expression in it). The numbers are those
  of TypeScript's table
  \<^verbatim>\<open>getOperatorPrecedence\<close>, of which only the order matters: 19 for identifiers,
  literals, object literals and parenthesized expressions, 18 for a property access, 17
  for a call, 5 for \<^verbatim>\<open>||\<close>, 3 for an assignment, 2 for \<^verbatim>\<open>yield\<close>, 0 for the comma, and
  -1 for a kind that is not in the table (a meta property \<^verbatim>\<open>new.target\<close> or
  \<^verbatim>\<open>import.meta\<close>, a statement).
\<close>

definition operatorPrecedence :: "token \<Rightarrow> int" where
  "operatorPrecedence op =
     (case op of EqualsToken \<Rightarrow> 3 | BarBarToken \<Rightarrow> 5 | CommaToken \<Rightarrow> 0 | OtherToken _ p _ \<Rightarrow> p)"

definition rightAssociativeOperator :: "token \<Rightarrow> bool" where
  "rightAssociativeOperator op =
     (case op of EqualsToken \<Rightarrow> True | BarBarToken \<Rightarrow> False | CommaToken \<Rightarrow> False
      | OtherToken _ _ r \<Rightarrow> r)"

definition getExpressionPrecedence :: "node \<Rightarrow> int" where
  "getExpressionPrecedence n =
     (case kind n of
        Identifier _ \<Rightarrow> 19
      | StringLiteral _ _ \<Rightarrow> 19
      | ObjectLiteralExpression _ \<Rightarrow> 19
      | TrueKeyword \<Rightarrow> 19
      | ParenthesizedExpression _ \<Rightarrow> 19
      | PropertyAccessExpression _ _ \<Rightarrow> 18
      | CallExpression _ _ \<Rightarrow> 17
      | BinaryExpression _ op _ \<Rightarrow> operatorPrecedence op
      | YieldExpression _ \<Rightarrow> 2
      | OtherNode _ p _ _ _ _ \<Rightarrow> p
      | _ \<Rightarrow> - 1)"

text \<open>
  An expression associates to the right when it is a binary expression of an operator
  that does, or a \<^verbatim>\<open>yield\<close>; among the other nodes so do the unary and the conditional
  expressions. The associativity of an operand is only looked at when its precedence is
  that of the operator.
\<close>

definition rightAssociativeExpression :: "node \<Rightarrow> bool" where
  "rightAssociativeExpression n =
     (case kind n of
        BinaryExpression _ op _ \<Rightarrow> rightAssociativeOperator op
      | YieldExpression _ \<Rightarrow> True
      | OtherNode _ _ r _ _ _ \<Rightarrow> r
      | _ \<Rightarrow> False)"

subsection \<open>Node factories\<close>

definition createIdentifier :: "string \<Rightarrow> node" where
  "createIdentifier t = Node (Identifier t) None"

definition createParen :: "node \<Rightarrow> node" where
  "createParen e = Node (ParenthesizedExpression e) None"

text \<open>
  \<^verbatim>\<open>parenthesizeExpressionForList\<close>: an element of an argument list, or an initializer,
  is put in parentheses unless its precedence is above that of the comma.
\<close>

definition parenthesizeExpressionForList :: "node \<Rightarrow> node" where
  "parenthesizeExpressionForList e =
     (if getExpressionPrecedence e > operatorPrecedence CommaToken then e else createParen e)"

text \<open>
  \<^verbatim>\<open>parenthesizeBinaryOperand\<close>: an operand of lower precedence than the operator is put
  in parentheses, except a \<^verbatim>\<open>yield\<close> on the right of an operator that associates to the
  right; one of higher precedence is not; one of the same precedence is when it stands
  on the side the operator does not associate to. (TypeScript has special cases besides,
  for the operators \<^verbatim>\<open>* | & ^\<close>, for \<^verbatim>\<open>+\<close> between literals, and for an arrow function
  on the right of an operator above the assignments. The code passes the operators
  \<^verbatim>\<open>=\<close>, with any right operand, and \<^verbatim>\<open>||\<close>, with an identifier and an object literal:
  none of the special cases is about them.)
\<close>

definition binaryOperandNeedsParentheses :: "token \<Rightarrow> node \<Rightarrow> bool \<Rightarrow> bool" where
  "binaryOperandNeedsParentheses binaryOperator operand isLeftSideOfBinary =
     (if getExpressionPrecedence operand < operatorPrecedence binaryOperator
      then \<not> (\<not> isLeftSideOfBinary \<and> rightAssociativeOperator binaryOperator \<and>
              isYieldExpression operand)
      else if getExpressionPrecedence operand > operatorPrecedence binaryOperator then False
      else if isLeftSideOfBinary then rightAssociativeOperator binaryOperator
      else \<not> rightAssociativeExpression operand)"

definition parenthesizeBinaryOperand :: "token \<Rightarrow> node \<Rightarrow> bool \<Rightarrow> node" where
  "parenthesizeBinaryOperand binaryOperator operand isLeftSideOfBinary =
     (if isParenthesizedExpression operand then operand
      else if binaryOperandNeedsParentheses binaryOperator operand isLeftSideOfBinary
      then createParen operand
      else operand)"

text \<open>
  \<^verbatim>\<open>ts.createPropertyAccess\<close> and \<^verbatim>\<open>ts.createCall\<close> also put an expression that is not a
  left-hand-side expression in parentheses before the dot or the argument list, and
  \<^verbatim>\<open>ts.createStatement\<close> an expression that begins with an object literal or a function
  expression. The code passes an identifier as the expression of an access, an
  identifier or an access on an identifier as a callee, and to \<^verbatim>\<open>ts.createStatement\<close> a
  call of such a callee or an assignment to an identifier: they are kept as they are.
\<close>

definition createPropertyAccess :: "node \<Rightarrow> string \<Rightarrow> node" where
  "createPropertyAccess e n = Node (PropertyAccessExpression e n) None"

definition createCall :: "node \<Rightarrow> node list \<Rightarrow> node" where
  "createCall f args = Node (CallExpression f (map parenthesizeExpressionForList args)) None"

definition createStatement :: "node \<Rightarrow> node" where
  "createStatement e = Node (ExpressionStatement e) None"

definition createBinary :: "node \<Rightarrow> token \<Rightarrow> node \<Rightarrow> node" where
  "createBinary l op r =
     Node (BinaryExpression (parenthesizeBinaryOperand op l True) op
             (parenthesizeBinaryOperand op r False)) None"

definition createAssignment :: "node \<Rightarrow> node \<Rightarrow> node" where
  "createAssignment l r = createBinary l EqualsToken r"

definition createObjectLiteral :: "objectLiteralElement list \<Rightarrow> node" where
  "createObjectLiteral props = Node (ObjectLiteralExpression props) None"

definition createPropertyAssignment :: "string \<Rightarrow> node \<Rightarrow> objectLiteralElement" where
  "createPropertyAssignment n i =
     PropertyAssignment (createIdentifier n) (parenthesizeExpressionForList i)"

definition createVariableDeclaration :: "node \<Rightarrow> node \<Rightarrow> variableDeclaration" where
  "createVariableDeclaration n i = VariableDeclaration n (Some (parenthesizeExpressionForList i))"

definition createVariableDeclarationList :: "variableDeclaration list \<Rightarrow> variableDeclaration list" where
  "createVariableDeclarationList ds = ds"

definition createVariableStatement :: "variableDeclaration list \<Rightarrow> node" where
  "createVariableStatement dl = Node (VariableStatement dl) None"

definition createNotEmittedStatement :: "node \<Rightarrow> node" where
  "createNotEmittedStatement orig = Node NotEmittedStatement (Some orig)"

definition setOriginalNode :: "node \<Rightarrow> node \<Rightarrow> node" where
  "setOriginalNode n orig = Node (kind n) (Some orig)"

fun getOriginalNode :: "node \<Rightarrow> node" where
  "getOriginalNode (Node k None) = Node k None"
| "getOriginalNode (Node k (Some orig)) = getOriginalNode orig"


section \<open>Statement classifiers\<close>

definition createSingleQuoteStringLiteral :: "string \<Rightarrow> node" where
  "createSingleQuoteStringLiteral t = Node (StringLiteral t True) None"

definition isPropertyAccess :: "node \<Rightarrow> string \<Rightarrow> string \<Rightarrow> bool" where
  "isPropertyAccess n parent child =
     (case kind n of
        PropertyAccessExpression e name \<Rightarrow>
          isIdentifier e \<and> escapedText e = Some parent \<and> escapeLeadingUnderscores name = child
      | _ \<Rightarrow> False)"

text \<open>
  The classifiers below take an expression statement; their callers check the kind
  first, and on any other kind the model answers that the shape does not match.
\<close>

definition isModuleExportsAssignment :: "node \<Rightarrow> bool" where
  "isModuleExportsAssignment expr =
     (case kind expr of
        ExpressionStatement e \<Rightarrow>
          (case kind e of
             BinaryExpression l op r \<Rightarrow>
               if op \<noteq> EqualsToken then False else isPropertyAccess l ''module'' ''exports''
           | _ \<Rightarrow> False)
      | _ \<Rightarrow> False)"

definition isExportsAssignment :: "node \<Rightarrow> bool" where
  "isExportsAssignment expr =
     (case kind expr of
        ExpressionStatement e \<Rightarrow>
          (case kind e of
             BinaryExpression l op r \<Rightarrow>
               if op \<noteq> EqualsToken then False
               else isIdentifier l \<and> textOf l = Some ''exports''
           | _ \<Rightarrow> False)
      | _ \<Rightarrow> False)"

definition isUseStrict :: "node \<Rightarrow> bool" where
  "isUseStrict n =
     (case kind n of
        ExpressionStatement expr \<Rightarrow>
          (case kind expr of StringLiteral t _ \<Rightarrow> t = ''use strict'' | _ \<Rightarrow> False)
      | _ \<Rightarrow> False)"

definition isEsModuleProperty :: "node \<Rightarrow> bool" where
  "isEsModuleProperty stmt =
     (case kind stmt of
        ExpressionStatement expr \<Rightarrow>
          (case kind expr of
             CallExpression callee args \<Rightarrow>
               if \<not> isPropertyAccess callee ''Object'' ''defineProperty'' then False
               else (case args of
                  [exp, esM, val] \<Rightarrow>
                    if \<not> isIdentifier exp \<or> escapedText exp \<noteq> Some ''exports'' then False
                    else if \<not> isStringLiteral esM \<or> textOf esM \<noteq> Some ''__esModule'' then False
                    else (case kind val of
                       ObjectLiteralExpression [prop] \<Rightarrow>
                         (case prop of
                            PropertyAssignment ident initializer \<Rightarrow>
                              if \<not> isIdentifier ident \<or> textOf ident \<noteq> Some ''value'' then False
                              else kind initializer = TrueKeyword
                          | _ \<Rightarrow> False)
                     | _ \<Rightarrow> False)
                | _ \<Rightarrow> False)
           | _ \<Rightarrow> False)
      | _ \<Rightarrow> False)"

text \<open>
  \<^verbatim>\<open>extractRequire\<close> is typed for a call expression, but one caller hands it
  \<^verbatim>\<open>expr.arguments[0] as ts.CallExpression\<close>, a cast nothing checks: the argument can
  be absent (\<open>None\<close>) or a node of any kind. Reading \<^verbatim>\<open>.kind\<close> or \<^verbatim>\<open>.length\<close> of
  \<^verbatim>\<open>undefined\<close> throws a TypeError.
\<close>

definition extractRequire :: "node option \<Rightarrow> error + string option" where
  "extractRequire call =
     (case call of
        None \<Rightarrow> Inl TypeError
      | Some c \<Rightarrow>
          (case expression c of
             None \<Rightarrow> Inl TypeError
           | Some ident \<Rightarrow>
               if \<not> isIdentifier ident then Inr None
               else if escapedText ident \<noteq> Some ''require'' then Inr None
               else (case arguments c of
                  None \<Rightarrow> Inl TypeError
                | Some args \<Rightarrow>
                    if length args \<noteq> 1 then Inr None
                    else (case kind (args ! 0) of
                       StringLiteral t _ \<Rightarrow> Inr (Some t)
                     | _ \<Rightarrow> Inr None))))"

definition createGoogCall :: "string \<Rightarrow> node \<Rightarrow> node" where
  "createGoogCall methodName literal =
     createCall (createPropertyAccess (createIdentifier ''goog'') methodName) [literal]"

definition extractGoogNamespaceImport :: "string \<Rightarrow> string option" where
  "extractGoogNamespaceImport tsImport =
     (if take 5 tsImport = ''goog:'' then Some (drop 5 tsImport) else None)"

section \<open>The host and the manifest\<close>

text \<open>
  The host's callbacks are parameters. \<open>indexShorthand host fileName imported\<close> stands for
  \<^verbatim>\<open>resolveIndexShorthand(host, fileName, imported)\<close>, whose result comes from the
  compiler's module resolution and the file system.
\<close>

record host =
  pathToModuleName :: "string \<Rightarrow> string \<Rightarrow> string"
  fileNameToModuleId :: "string \<Rightarrow> string"
  isJsTranspilation :: "bool option"
  es5Mode :: "bool option"
  convertIndexImportShorthand :: "bool option"
  indexShorthand :: "string \<Rightarrow> string \<Rightarrow> string"

record sourceFile =
  fileName :: string
  statements :: "node list"

text \<open>
  The manifest is an object of another module; the transformer only calls it. The model
  keeps the calls made so far, oldest first.
\<close>

datatype manifestCall = AddModule string string | AddReferencedModule string string

text \<open>The \<^verbatim>\<open>text\<close> of a node that is a string literal by its type.\<close>

definition stringLiteralText :: "node \<Rightarrow> string" where
  "stringLiteralText n = (case kind n of StringLiteral t _ \<Rightarrow> t | _ \<Rightarrow> [])"

definition importPathToGoogNamespace :: "host \<Rightarrow> sourceFile \<Rightarrow> string \<Rightarrow> node" where
  "importPathToGoogNamespace host file tsImport =
     (case extractGoogNamespaceImport tsImport of
        Some nsImport \<Rightarrow> createSingleQuoteStringLiteral nsImport
      | None \<Rightarrow>
          (let tsImport' = (if flag (convertIndexImportShorthand host)
                            then indexShorthand host (fileName file) tsImport else tsImport)
           in createSingleQuoteStringLiteral (pathToModuleName host (fileName file) tsImport')))"

definition rewriteModuleExportsAssignment :: "node \<Rightarrow> node option" where
  "rewriteModuleExportsAssignment expr =
     (case kind expr of
        ExpressionStatement e \<Rightarrow>
          (case kind e of
             BinaryExpression l op r \<Rightarrow>
               if op \<noteq> EqualsToken then None
               else if \<not> isPropertyAccess l ''module'' ''exports'' then None
               else Some (setOriginalNode
                            (createStatement (createAssignment (createIdentifier ''exports'') r))
                            expr)
           | _ \<Rightarrow> None)
      | _ \<Rightarrow> None)"


section \<open>The substitution hook\<close>

text \<open>
  The type checker gives a symbol for an identifier, a symbol has declarations, and a
  declaration is a node inside the tree of its file: the model keeps the chain of its
  parents.
\<close>

datatype declarationNode = Declaration (declNode: node) (parent: "declarationNode option")

record symbol =
  declarations :: "declarationNode list option"

definition moduleSpecifier :: "node \<Rightarrow> node option" where
  "moduleSpecifier n =
     (case kind n of ImportDeclaration m \<Rightarrow> Some m | ExportDeclaration m \<Rightarrow> m | _ \<Rightarrow> None)"

text \<open>
  The declaration an identifier comes from (the variable \<^verbatim>\<open>importExportDecl\<close> of the
  hook): the end of the identifier's chain of original nodes when that is an import or
  export declaration, otherwise the grandparent of the first declaration of its symbol
  when that is an import declaration. \<open>None\<close> where the hook returns the node as it is.
\<close>

definition importExportDecl :: "(node \<Rightarrow> symbol option) \<Rightarrow> node \<Rightarrow> node option" where
  "importExportDecl getSymbolAtLocation ident =
     (let orig = getOriginalNode ident in
      if isImportDeclaration orig \<or> isExportDeclaration orig then Some orig
      else (case getSymbolAtLocation ident of
         None \<Rightarrow> None
       | Some symb \<Rightarrow>
           (case declarations symb of
              None \<Rightarrow> None
            | Some [] \<Rightarrow> None
            | Some (decl # _) \<Rightarrow>
                (case parent decl of
                   None \<Rightarrow> None
                 | Some p \<Rightarrow>
                     (case parent p of
                        None \<Rightarrow> None
                      | Some pp \<Rightarrow>
                          if isImportDeclaration (declNode pp) then Some (declNode pp)
                          else None)))))"

text \<open>
  The hook first runs the hook that was installed before it. Reading \<^verbatim>\<open>.text\<close> of a
  module specifier that is absent, or matching a text that is \<^verbatim>\<open>undefined\<close> against
  the prefix, throws.
\<close>

definition onSubstituteNode ::
  "('h \<Rightarrow> node \<Rightarrow> node) \<Rightarrow> (node \<Rightarrow> symbol option) \<Rightarrow> 'h \<Rightarrow> node \<Rightarrow> error + node" where
  "onSubstituteNode previousOnSubstituteNode getSymbolAtLocation hint node0 =
     (let node = previousOnSubstituteNode hint node0 in
      case kind node of
        PropertyAccessExpression lhs name \<Rightarrow>
          if name \<noteq> ''default'' then Inr node
          else if \<not> isIdentifier lhs then Inr node
          else (case importExportDecl getSymbolAtLocation lhs of
             None \<Rightarrow> Inr node
           | Some decl \<Rightarrow>
               (case moduleSpecifier decl of
                  None \<Rightarrow> Inl TypeError
                | Some m \<Rightarrow>
                    (case textOf m of
                       None \<Rightarrow> Inl TypeError
                     | Some t \<Rightarrow>
                         if truthy (extractGoogNamespaceImport t) then Inr lhs
                         else Inr node)))
      | _ \<Rightarrow> Inr node)"

section \<open>The statement rewrite\<close>

text \<open>
  What one run of the transformer on a source file changes: the output array
  \<^verbatim>\<open>stmts\<close>, the counter of \<^verbatim>\<open>nextModuleVar\<close>, the map from a namespace to the
  identifier bound to it, and the manifest.
\<close>

record tstate =
  stmts :: "node list"
  moduleVarCounter :: nat
  namespaceToModuleVarName :: "string \<rightharpoonup> node"
  modulesManifest :: "manifestCall list"

text \<open>The decimal digits of a number, as a template string prints the counter.\<close>

fun decimal :: "nat \<Rightarrow> string" where
  "decimal n =
     (if n < 10 then [''0123456789'' ! n]
      else decimal (n div 10) @ [''0123456789'' ! (n mod 10)])"

declare decimal.simps [simp del]

definition nextModuleVar :: "tstate \<Rightarrow> string \<times> tstate" where
  "nextModuleVar st =
     (''tsickle_module_'' @ decimal (moduleVarCounter st) @ ''_'',
      st\<lparr>moduleVarCounter := moduleVarCounter st + 1\<rparr>)"

definition push :: "node \<Rightarrow> tstate \<Rightarrow> tstate" where
  "push n st = st\<lparr>stmts := stmts st @ [n]\<rparr>"

definition maybeCreateGoogRequire ::
  "host \<Rightarrow> sourceFile \<Rightarrow> node \<Rightarrow> node option \<Rightarrow> node \<Rightarrow> tstate
     \<Rightarrow> (error + node option) \<times> tstate" where
  "maybeCreateGoogRequire host sf orig call newIdent st =
     (case extractRequire call of
        Inl e \<Rightarrow> (Inl e, st)
      | Inr importedUrl \<Rightarrow>
          if \<not> truthy importedUrl then (Inr None, st)
          else (case importedUrl of
             None \<Rightarrow> (Inr None, st)
           | Some url \<Rightarrow>
               (let imp = importPathToGoogNamespace host sf url;
                    ns = stringLiteralText imp;
                    st1 = st\<lparr>modulesManifest :=
                             modulesManifest st @ [AddReferencedModule (fileName sf) ns]\<rparr>;
                    (initializer, st2) =
                      (case namespaceToModuleVarName st1 ns of
                         None \<Rightarrow>
                           (createGoogCall ''require'' imp,
                            st1\<lparr>namespaceToModuleVarName :=
                                  (namespaceToModuleVarName st1)(ns \<mapsto> newIdent)\<rparr>)
                       | Some ident \<Rightarrow> (ident, st1));
                    varDecl = createVariableDeclaration newIdent initializer;
                    newStmt = createVariableStatement (createVariableDeclarationList [varDecl])
                in (Inr (Some (setOriginalNode newStmt orig)), st2))))"


definition maybeRewriteRequireTslib :: "node \<Rightarrow> node" where
  "maybeRewriteRequireTslib stmt =
     (case kind stmt of
        ExpressionStatement callExpr \<Rightarrow>
          (case kind callExpr of
             CallExpression callee args \<Rightarrow>
               if \<not> isIdentifier callee \<or> textOf callee \<noteq> Some ''require'' then stmt
               else (case args of
                  [arg] \<Rightarrow>
                    if \<not> isStringLiteral arg \<or> textOf arg \<noteq> Some ''tslib'' then stmt
                    else setOriginalNode (createStatement (createGoogCall ''require'' arg)) stmt
                | _ \<Rightarrow> stmt)
           | _ \<Rightarrow> stmt)
      | _ \<Rightarrow> stmt)"

text \<open>
  \<^verbatim>\<open>visitTopLevelStatement\<close> pushes onto its parameter \<^verbatim>\<open>statements\<close> and onto the
  \<^verbatim>\<open>stmts\<close> of the enclosing function; its only call passes \<^verbatim>\<open>stmts\<close>, so both are
  the array of the state. The result is the exception thrown, if any, with the state
  reached.
\<close>

definition visitTopLevelStatement ::
  "host \<Rightarrow> sourceFile \<Rightarrow> node \<Rightarrow> tstate \<Rightarrow> error option \<times> tstate" where
  "visitTopLevelStatement host sf n st =
     (case kind n of
        ExpressionStatement expr \<Rightarrow>
          if isUseStrict n \<or> isEsModuleProperty n
          then (None, push (createNotEmittedStatement n) st)
          else (case rewriteModuleExportsAssignment n of
             Some modExports \<Rightarrow> (None, push modExports st)
           | None \<Rightarrow>
               (case kind expr of
                  CallExpression callee args \<Rightarrow>
                    (let isExportStar =
                           ((isIdentifier callee \<and> textOf callee = Some ''__exportStar'') \<or>
                            (isIdentifier callee \<and> textOf callee = Some ''__export''));
                         callExpr = (if isExportStar then at args 0 else Some expr);
                         (name, st1) = nextModuleVar st;
                         ident = createIdentifier name
                     in case maybeCreateGoogRequire host sf n callExpr ident st1 of
                          (Inl e, st2) \<Rightarrow> (Some e, st2)
                        | (Inr None, st2) \<Rightarrow> (None, push n st2)
                        | (Inr (Some req), st2) \<Rightarrow>
                            (let st3 = push req st2
                             in if isExportStar
                                then (None,
                                      push (createStatement
                                              (createCall callee
                                                 (ident # (if length args > 1 then [args ! 1] else []))))
                                        st3)
                                else (None, st3)))
                | _ \<Rightarrow> (None, push n st)))
      | VariableStatement decls \<Rightarrow>
          (case decls of
             [VariableDeclaration name initializer] \<Rightarrow>
               if \<not> isIdentifier name then (None, push n st)
               else (case initializer of
                  None \<Rightarrow> (None, push n st)
                | Some i \<Rightarrow>
                    if \<not> isCallExpression i then (None, push n st)
                    else (case maybeCreateGoogRequire host sf n (Some i) name st of
                       (Inl e, st2) \<Rightarrow> (Some e, st2)
                     | (Inr None, st2) \<Rightarrow> (None, push n st2)
                     | (Inr (Some req), st2) \<Rightarrow> (None, push req st2)))
           | _ \<Rightarrow> (None, push n st))
      | _ \<Rightarrow> (None, push n st))"

text \<open>The loop over the statements of the file; an exception ends it.\<close>

fun visitTopLevelStatements ::
  "host \<Rightarrow> sourceFile \<Rightarrow> node list \<Rightarrow> tstate \<Rightarrow> error option \<times> tstate" where
  "visitTopLevelStatements host sf [] st = (None, st)"
| "visitTopLevelStatements host sf (stmt # rest) st =
     (case visitTopLevelStatement host sf stmt st of
        (Some e, st') \<Rightarrow> (Some e, st')
      | (None, st') \<Rightarrow> visitTopLevelStatements host sf rest st')"

section \<open>The header and the transformer\<close>

definition headerStmts :: "host \<Rightarrow> sourceFile \<Rightarrow> string \<Rightarrow> node list" where
  "headerStmts host sf moduleName =
     (let googModule =
            createStatement (createGoogCall ''module'' (createSingleQuoteStringLiteral moduleName));
          moduleId = fileNameToModuleId host (fileName sf);
          moduleVarInitializer =
            createBinary (createIdentifier ''module'') BarBarToken
              (createObjectLiteral
                 [createPropertyAssignment ''id'' (createSingleQuoteStringLiteral moduleId)]);
          modAssign =
            createVariableStatement
              (createVariableDeclarationList
                 [createVariableDeclaration (createIdentifier ''module'') moduleVarInitializer])
      in [googModule, modAssign] @
         (if \<not> flag (es5Mode host)
          then [createStatement
                  (createAssignment (createIdentifier ''module'') (createIdentifier ''module''))] @
               (if List.find (\<lambda>s. isExpressionStatement s \<and>
                                   (isModuleExportsAssignment s \<or> isExportsAssignment s))
                     (statements sf) = None
                then [createStatement
                        (createAssignment (createIdentifier ''exports'') (createObjectLiteral []))]
                else [])
          else []))"

text \<open>\<^verbatim>\<open>xs.splice(i, 0, ...ys)\<close> puts \<open>ys\<close> into \<open>xs\<close> before index \<open>i\<close>.\<close>

definition splice0 :: "nat \<Rightarrow> 'a list \<Rightarrow> 'a list \<Rightarrow> 'a list" where
  "splice0 i ys xs = take i xs @ ys @ drop i xs"

definition insertionIdx :: "node list \<Rightarrow> nat" where
  "insertionIdx xs = (if xs \<noteq> [] \<and> isNotEmittedStatement (xs ! 0) then 1 else 0)"

definition updateSourceFileNode :: "sourceFile \<Rightarrow> node list \<Rightarrow> sourceFile" where
  "updateSourceFileNode sf xs = sf\<lparr>statements := xs\<rparr>"

text \<open>The state a run starts in: no output, the counter at 1, no namespace bound.\<close>

definition initialState :: "manifestCall list \<Rightarrow> tstate" where
  "initialState manifest =
     \<lparr>stmts = [], moduleVarCounter = 1, namespaceToModuleVarName = Map.empty,
      modulesManifest = manifest\<rparr>"

text \<open>
  The transformer of one source file. The result is the manifest after the run, which
  keeps the calls made before an exception, and the new source file or the exception.
\<close>

definition commonJsToGoogmoduleTransformer ::
  "host \<Rightarrow> manifestCall list \<Rightarrow> sourceFile \<Rightarrow> manifestCall list \<times> (error + sourceFile)" where
  "commonJsToGoogmoduleTransformer host manifest sf =
     (let moduleName = pathToModuleName host [] (fileName sf);
          manifest1 = manifest @ [AddModule (fileName sf) moduleName]
      in if flag (isJsTranspilation host)
         then (manifest1, Inr (updateSourceFileNode sf (map maybeRewriteRequireTslib (statements sf))))
         else (case visitTopLevelStatements host sf (statements sf) (initialState manifest1) of
            (Some e, st) \<Rightarrow> (modulesManifest st, Inl e)
          | (None, st) \<Rightarrow>
              (modulesManifest st,
               Inr (updateSourceFileNode sf
                      (splice0 (insertionIdx (stmts st)) (headerStmts host sf moduleName) (stmts st))))))"


section \<open>Notions used to state the properties\<close>

text \<open>
  The specifier of a call \<^verbatim>\<open>require('...')\<close>: the callee is the identifier
  \<^verbatim>\<open>require\<close> and the only argument is a string literal, which is not empty. It is
  read from the \<^verbatim>\<open>expression\<close> and the \<^verbatim>\<open>arguments\<close> of the node, which a call
  expression has, and a \<^verbatim>\<open>new\<close> expression too.
\<close>

definition requireSpecifier :: "node \<Rightarrow> string option" where
  "requireSpecifier c =
     (case expression c of
        Some f \<Rightarrow>
          (case kind f of
             Identifier r \<Rightarrow>
               (case arguments c of
                  Some [a] \<Rightarrow>
                    (case kind a of
                       StringLiteral u _ \<Rightarrow>
                         if r = ''require'' \<and> u \<noteq> [] then Some u else None
                     | _ \<Rightarrow> None)
                | _ \<Rightarrow> None)
           | _ \<Rightarrow> None)
      | None \<Rightarrow> None)"

text \<open>The callee of a star re-export: the identifier \<^verbatim>\<open>__exportStar\<close> or \<^verbatim>\<open>__export\<close>.\<close>

definition isExportStarCallee :: "node \<Rightarrow> bool" where
  "isExportStarCallee f =
     (case kind f of Identifier w \<Rightarrow> w = ''__exportStar'' \<or> w = ''__export'' | _ \<Rightarrow> False)"

text \<open>
  The specifier a top-level statement imports: of a side-effect \<^verbatim>\<open>require('...');\<close>, of
  a star re-export whose first argument is such a call (or reads as one), or of a
  declaration \<^verbatim>\<open>var x = require('...');\<close> with one declarator and an identifier as its
  name.
\<close>

definition importSpecifier :: "node \<Rightarrow> string option" where
  "importSpecifier n =
     (case kind n of
        ExpressionStatement e \<Rightarrow>
          (case kind e of
             CallExpression f args \<Rightarrow>
               if isExportStarCallee f
               then (case args of [] \<Rightarrow> None | a # _ \<Rightarrow> requireSpecifier a)
               else requireSpecifier e
           | _ \<Rightarrow> None)
      | VariableStatement [VariableDeclaration name (Some i)] \<Rightarrow>
          if isIdentifier name \<and> isCallExpression i then requireSpecifier i else None
      | _ \<Rightarrow> None)"

definition importedNamespace :: "host \<Rightarrow> sourceFile \<Rightarrow> node \<Rightarrow> string option" where
  "importedNamespace host sf n =
     map_option (\<lambda>u. stringLiteralText (importPathToGoogNamespace host sf u)) (importSpecifier n)"

text \<open>A star re-export that imports: the statement the rewrite splits in two.\<close>

definition isStarReExport :: "node \<Rightarrow> bool" where
  "isStarReExport n =
     (case kind n of
        ExpressionStatement e \<Rightarrow>
          (case kind e of
             CallExpression f args \<Rightarrow> isExportStarCallee f \<and> importSpecifier n \<noteq> None
           | _ \<Rightarrow> False)
      | _ \<Rightarrow> False)"

definition outputCount :: "node \<Rightarrow> nat" where
  "outputCount n = (if isStarReExport n then 2 else 1)"

text \<open>
  The identifier an import statement binds when it is visited in a state: the declared
  name of a variable statement, otherwise the next synthetic name.
\<close>

definition boundIdentifier :: "node \<Rightarrow> tstate \<Rightarrow> node" where
  "boundIdentifier n st =
     (case kind n of
        VariableStatement [VariableDeclaration name _] \<Rightarrow> name
      | _ \<Rightarrow> createIdentifier (fst (nextModuleVar st)))"

text \<open>The statement \<^verbatim>\<open>var ident = init;\<close> made for the statement \<open>orig\<close>.\<close>

definition requireDeclaration :: "node \<Rightarrow> node \<Rightarrow> node \<Rightarrow> node" where
  "requireDeclaration orig ident init =
     setOriginalNode
       (createVariableStatement
          (createVariableDeclarationList [createVariableDeclaration ident init]))
       orig"

text \<open>The statements a visit of \<open>n\<close> in the state \<open>st\<close> adds to the output.\<close>

definition emitted :: "host \<Rightarrow> sourceFile \<Rightarrow> node \<Rightarrow> tstate \<Rightarrow> node list" where
  "emitted host sf n st =
     drop (length (stmts st)) (stmts (snd (visitTopLevelStatement host sf n st)))"

text \<open>The state a list of statements leaves behind.\<close>

definition stateAfter :: "host \<Rightarrow> sourceFile \<Rightarrow> node list \<Rightarrow> tstate \<Rightarrow> tstate" where
  "stateAfter host sf xs st = snd (visitTopLevelStatements host sf xs st)"

text \<open>
  The argument of a statement of the exact form \<^verbatim>\<open>require('tslib');\<close>.
\<close>

definition requireTslibArgument :: "node \<Rightarrow> node option" where
  "requireTslibArgument s =
     (case kind s of
        ExpressionStatement e \<Rightarrow>
          (case kind e of
             CallExpression f [a] \<Rightarrow>
               (case kind f of
                  Identifier r \<Rightarrow>
                    (case kind a of
                       StringLiteral t _ \<Rightarrow>
                         if r = ''require'' \<and> t = ''tslib'' then Some a else None
                     | _ \<Rightarrow> None)
                | _ \<Rightarrow> None)
           | _ \<Rightarrow> None)
      | _ \<Rightarrow> None)"

definition isAddModule :: "manifestCall \<Rightarrow> bool" where
  "isAddModule c = (case c of AddModule _ _ \<Rightarrow> True | _ \<Rightarrow> False)"


text \<open>
  The text of the module specifier of a declaration, where the hook can read one.
\<close>

definition specifierText :: "node \<Rightarrow> string option" where
  "specifierText decl = (case moduleSpecifier decl of None \<Rightarrow> None | Some m \<Rightarrow> textOf m)"

text \<open>A specifier that is the prefix \<^verbatim>\<open>goog:\<close> followed by a namespace that is not empty.\<close>

definition isGoogSpecifier :: "string \<Rightarrow> bool" where
  "isGoogSpecifier t = (take 5 t = ''goog:'' \<and> 5 < length t)"

text \<open>
  The run of the loop inside the transformer, outside the mode for transpiled JavaScript:
  it starts in the initial state, after the call of \<^verbatim>\<open>addModule\<close>.
\<close>

definition bodyRun :: "host \<Rightarrow> manifestCall list \<Rightarrow> sourceFile \<Rightarrow> error option \<times> tstate" where
  "bodyRun host manifest sf =
     visitTopLevelStatements host sf (statements sf)
       (initialState (manifest @
          [AddModule (fileName sf) (pathToModuleName host [] (fileName sf))]))"

text \<open>The statements a visit of the list \<open>xs\<close> from the state \<open>st\<close> adds to the output.\<close>

definition outputOf :: "host \<Rightarrow> sourceFile \<Rightarrow> node list \<Rightarrow> tstate \<Rightarrow> node list" where
  "outputOf host sf xs st = drop (length (stmts st)) (stmts (stateAfter host sf xs st))"

text \<open>
  The string of a call \<^verbatim>\<open>require('...')\<close>, whatever the string: the node is a call
  expression, the callee is the identifier \<^verbatim>\<open>require\<close>, and the only argument is a string
  literal.
\<close>

definition requireArgument :: "node \<Rightarrow> string option" where
  "requireArgument c =
     (case kind c of
        CallExpression f [a] \<Rightarrow>
          (case kind f of
             Identifier r \<Rightarrow>
               (case kind a of
                  StringLiteral u _ \<Rightarrow> if r = ''require'' then Some u else None
                | _ \<Rightarrow> None)
           | _ \<Rightarrow> None)
      | _ \<Rightarrow> None)"

text \<open>A statement that calls \<^verbatim>\<open>__exportStar\<close> or \<^verbatim>\<open>__export\<close>.\<close>

definition isStarWrapper :: "node \<Rightarrow> bool" where
  "isStarWrapper n =
     (case kind n of
        ExpressionStatement e \<Rightarrow>
          (case kind e of CallExpression f _ \<Rightarrow> isExportStarCallee f | _ \<Rightarrow> False)
      | _ \<Rightarrow> False)"

text \<open>
  A statement \<^verbatim>\<open>require('...');\<close>, or \<^verbatim>\<open>var x = require('...');\<close> with one declarator
  and an identifier as its name, whatever the string.
\<close>

definition isRequireImport :: "node \<Rightarrow> bool" where
  "isRequireImport n =
     (case kind n of
        ExpressionStatement e \<Rightarrow> requireArgument e \<noteq> None
      | VariableStatement [VariableDeclaration name (Some i)] \<Rightarrow>
          isIdentifier name \<and> requireArgument i \<noteq> None
      | _ \<Rightarrow> False)"

text \<open>
  A statement of none of the shapes the rewrite looks for: not \<^verbatim>\<open>"use strict"\<close>, not the
  ES-module marker, not an assignment to \<^verbatim>\<open>module.exports\<close>, not a call of a star
  re-export wrapper, and not a \<^verbatim>\<open>require\<close> statement or declaration.
\<close>

definition untouched :: "node \<Rightarrow> bool" where
  "untouched n =
     (\<not> isUseStrict n \<and> \<not> isEsModuleProperty n \<and> \<not> isModuleExportsAssignment n \<and>
      \<not> isStarWrapper n \<and> \<not> isRequireImport n)"

section \<open>Example inputs\<close>

text \<open>
  A host that takes the import path as the module name and the file name as the module
  id, with no flag set; and the same host in the mode for transpiled JavaScript.
\<close>

definition exampleHost :: host where
  "exampleHost =
     \<lparr>pathToModuleName = (\<lambda>context importPath. importPath),
      fileNameToModuleId = (\<lambda>fileName. fileName),
      isJsTranspilation = None, es5Mode = None, convertIndexImportShorthand = None,
      indexShorthand = (\<lambda>fileName imported. imported)\<rparr>"

definition transpilationHost :: host where
  "transpilationHost = exampleHost\<lparr>isJsTranspilation := Some True\<rparr>"

text \<open>
  The statements of the examples are nodes as the parser or an earlier transformer
  leaves them, without an original node:
  \<^verbatim>\<open>require("<u>")\<close>, \<^verbatim>\<open>require("<u>");\<close> and \<^verbatim>\<open>var <x> = require("<u>");\<close>.
\<close>

definition requireCall :: "string \<Rightarrow> node" where
  "requireCall u =
     Node (CallExpression (Node (Identifier ''require'') None) [Node (StringLiteral u False) None])
       None"

definition requireStatement :: "string \<Rightarrow> node" where
  "requireStatement u = Node (ExpressionStatement (requireCall u)) None"

definition requireVariable :: "string \<Rightarrow> string \<Rightarrow> node" where
  "requireVariable x u =
     Node (VariableStatement [VariableDeclaration (Node (Identifier x) None) (Some (requireCall u))])
       None"

text \<open>\<^verbatim>\<open><w>(<args>);\<close>, a call of the function named \<open>w\<close> as a statement.\<close>

definition callStatement :: "string \<Rightarrow> node list \<Rightarrow> node" where
  "callStatement w args =
     Node (ExpressionStatement (Node (CallExpression (Node (Identifier w) None) args) None)) None"

text \<open>\<^verbatim>\<open>"use strict";\<close> and \<^verbatim>\<open>Object.defineProperty(exports, "__esModule", { value: true });\<close>\<close>

definition useStrict :: node where
  "useStrict = Node (ExpressionStatement (Node (StringLiteral ''use strict'' False) None)) None"

definition esModuleMarker :: node where
  "esModuleMarker =
     Node (ExpressionStatement
       (Node (CallExpression
          (Node (PropertyAccessExpression (Node (Identifier ''Object'') None) ''defineProperty'')
             None)
          [Node (Identifier ''exports'') None, Node (StringLiteral ''__esModule'' False) None,
           Node (ObjectLiteralExpression
              [PropertyAssignment (Node (Identifier ''value'') None) (Node TrueKeyword None)])
             None])
          None))
       None"

text \<open>
  A not-emitted statement as it stands at the front of a file for the leading comments.
\<close>

definition commentPlaceholder :: node where
  "commentPlaceholder =
     createNotEmittedStatement (Node (OtherNode 0 (- 1) False None None None) None)"

definition exampleFile :: "node list \<Rightarrow> sourceFile" where
  "exampleFile xs = \<lparr>fileName = ''f.ts'', statements = xs\<rparr>"


text \<open>
  A previous hook that substitutes nothing and a type checker that knows no symbol; an
  identifier whose original node is \<^verbatim>\<open>import ... from '<spec>'\<close>; the access
  \<^verbatim>\<open><e>.default\<close>; and a type checker that gives every identifier the symbol of a
  namespace import \<^verbatim>\<open>import * as x from '<spec>'\<close>, whose declaration has the import
  clause as its parent and the import declaration above that.
\<close>

definition noPreviousHook :: "unit \<Rightarrow> node \<Rightarrow> node" where
  "noPreviousHook hint n = n"

definition noSymbols :: "node \<Rightarrow> symbol option" where
  "noSymbols n = None"

definition importDeclaration :: "string \<Rightarrow> node" where
  "importDeclaration spec = Node (ImportDeclaration (Node (StringLiteral spec False) None)) None"

definition importedIdentifier :: "string \<Rightarrow> string \<Rightarrow> node" where
  "importedIdentifier x spec = Node (Identifier x) (Some (importDeclaration spec))"

definition defaultAccess :: "node \<Rightarrow> node" where
  "defaultAccess e = Node (PropertyAccessExpression e ''default'') None"

definition namespaceImportSymbols :: "string \<Rightarrow> node \<Rightarrow> symbol option" where
  "namespaceImportSymbols spec n =
     Some \<lparr>declarations = Some
       [Declaration (Node (OtherNode 1 (- 1) False None None None) None)
          (Some (Declaration (Node (OtherNode 2 (- 1) False None None None) None)
             (Some (Declaration (importDeclaration spec) None))))]\<rparr>"

text \<open>
  The meta property \<^verbatim>\<open>new.target\<close>, a kind that TypeScript's table of precedences does
  not list; a template literal without substitutions, which has a text; the comma
  expression \<^verbatim>\<open>a, b\<close>; the statements \<^verbatim>\<open>module.exports = <x>;\<close> and \<^verbatim>\<open>exports = <x>;\<close>;
  and the call \<^verbatim>\<open>goog.require('<ns>')\<close> as the rewrite makes it.
\<close>

definition newTarget :: node where
  "newTarget = Node (OtherNode 3 (- 1) False None None None) None"


definition commaExpression :: "node \<Rightarrow> node \<Rightarrow> node" where
  "commaExpression a b = Node (BinaryExpression a CommaToken b) None"

definition moduleExportsAssignment :: "node \<Rightarrow> node" where
  "moduleExportsAssignment x =
     Node (ExpressionStatement
       (Node (BinaryExpression
          (Node (PropertyAccessExpression (Node (Identifier ''module'') None) ''exports'') None)
          EqualsToken x) None)) None"

definition exportsAssignment :: "node \<Rightarrow> node" where
  "exportsAssignment x =
     Node (ExpressionStatement
       (Node (BinaryExpression (Node (Identifier ''exports'') None) EqualsToken x) None)) None"

definition googRequire :: "string \<Rightarrow> node" where
  "googRequire ns =
     Node (CallExpression
        (Node (PropertyAccessExpression (Node (Identifier ''goog'') None) ''require'') None)
        [Node (StringLiteral ns True) None]) None"


text \<open>
  A type checker that gives every identifier a symbol with one declaration for each of
  the given specifiers, in their order: each declaration is two levels below the import
  declaration of its specifier.
\<close>

definition importSymbols :: "string list \<Rightarrow> node \<Rightarrow> symbol option" where
  "importSymbols specs n =
     Some \<lparr>declarations = Some
       (map (\<lambda>spec.
          Declaration (Node (OtherNode 1 (- 1) False None None None) None)
            (Some (Declaration (Node (OtherNode 2 (- 1) False None None None) None)
               (Some (Declaration (importDeclaration spec) None)))))
          specs)\<rparr>"

section \<open>Basic facts about the model\<close>

lemmas guard_defs = isIdentifier_def isStringLiteral_def isPropertyAccessExpression_def
  isCallExpression_def isBinaryExpression_def isExpressionStatement_def isNotEmittedStatement_def
  isImportDeclaration_def isExportDeclaration_def textOf_def expression_def arguments_def
  escapedText_def

lemma escape_require [simp]: "escapeLeadingUnderscores r = ''require'' \<longleftrightarrow> r = ''require''"
  by (auto simp: escapeLeadingUnderscores_def)

lemma requireSpecifier_SomeD:
  assumes "requireSpecifier c = Some u"
  shows "\<exists>f a q. expression c = Some f \<and> kind f = Identifier ''require'' \<and>
           arguments c = Some [a] \<and> kind a = StringLiteral u q \<and> u \<noteq> []"
proof -
  from assms obtain f where f: "expression c = Some f"
    by (cases "expression c") (simp_all add: requireSpecifier_def)
  from assms f obtain r where r: "kind f = Identifier r"
    by (cases "kind f") (simp_all add: requireSpecifier_def)
  from assms f r obtain args where args: "arguments c = Some args"
    by (cases "arguments c") (simp_all add: requireSpecifier_def)
  from assms f r args obtain a where a: "args = [a]"
    by (cases args; cases "tl args") (auto simp: requireSpecifier_def)
  from assms f r args a show ?thesis
    by (cases "kind a") (simp_all add: requireSpecifier_def split: if_splits)
qed

lemma extractRequire_import:
  "requireSpecifier c = Some u \<Longrightarrow> extractRequire (Some c) = Inr (Some u)"
  by (drule requireSpecifier_SomeD) (auto simp: extractRequire_def guard_defs)


lemma extractRequire_other:
  assumes "requireSpecifier c = None"
  shows "extractRequire (Some c) = Inl TypeError \<or> extractRequire (Some c) = Inr None
     \<or> extractRequire (Some c) = Inr (Some [])"
proof (cases "expression c")
  case None
  then show ?thesis by (simp add: extractRequire_def)
next
  case f: (Some f)
  show ?thesis
  proof (cases "isIdentifier f \<and> escapedText f = Some ''require''")
    case False
    with f show ?thesis by (auto simp: extractRequire_def)
  next
    case True
    then have r: "kind f = Identifier ''require''"
      by (cases "kind f") (simp_all add: isIdentifier_def escapedText_def)
    show ?thesis
    proof (cases "arguments c")
      case None
      with f True show ?thesis by (simp add: extractRequire_def)
    next
      case (Some args)
      show ?thesis
      proof (cases "\<exists>a. args = [a]")
        case False
        then have "length args \<noteq> 1" by (cases args; cases "tl args") auto
        with f True Some show ?thesis by (simp add: extractRequire_def)
      next
        case True
        then obtain a where a: "args = [a]" by blast
        from assms f r Some a \<open>isIdentifier f \<and> escapedText f = Some ''require''\<close>
        show ?thesis
          by (cases "kind a") (simp_all add: extractRequire_def requireSpecifier_def split: if_splits)
      qed
    qed
  qed
qed

lemma importPath_literal:
  "importPathToGoogNamespace host sf u =
     createSingleQuoteStringLiteral (stringLiteralText (importPathToGoogNamespace host sf u))"
  by (simp add: importPathToGoogNamespace_def stringLiteralText_def
      createSingleQuoteStringLiteral_def Let_def split: option.splits)

lemma maybeCreateGoogRequire_import:
  assumes "requireSpecifier c = Some u"
  shows "maybeCreateGoogRequire host sf orig (Some c) newIdent st =
    (let ns = stringLiteralText (importPathToGoogNamespace host sf u) in
     (Inr (Some (requireDeclaration orig newIdent
        (case namespaceToModuleVarName st ns of
           None \<Rightarrow> createGoogCall ''require'' (createSingleQuoteStringLiteral ns)
         | Some ident \<Rightarrow> ident))),
      st\<lparr>modulesManifest := modulesManifest st @ [AddReferencedModule (fileName sf) ns],
         namespaceToModuleVarName :=
           (case namespaceToModuleVarName st ns of
              None \<Rightarrow> (namespaceToModuleVarName st)(ns \<mapsto> newIdent)
            | Some _ \<Rightarrow> namespaceToModuleVarName st)\<rparr>))"
proof -
  have u: "u \<noteq> []" using requireSpecifier_SomeD [OF assms] by auto
  have "maybeCreateGoogRequire host sf orig (Some c) newIdent st =
    (let ns = stringLiteralText (importPathToGoogNamespace host sf u) in
     (Inr (Some (requireDeclaration orig newIdent
        (case namespaceToModuleVarName st ns of
           None \<Rightarrow> createGoogCall ''require'' (importPathToGoogNamespace host sf u)
         | Some ident \<Rightarrow> ident))),
      st\<lparr>modulesManifest := modulesManifest st @ [AddReferencedModule (fileName sf) ns],
         namespaceToModuleVarName :=
           (case namespaceToModuleVarName st ns of
              None \<Rightarrow> (namespaceToModuleVarName st)(ns \<mapsto> newIdent)
            | Some _ \<Rightarrow> namespaceToModuleVarName st)\<rparr>))"
    using u by (simp add: maybeCreateGoogRequire_def extractRequire_import [OF assms] truthy_def
        requireDeclaration_def Let_def split: option.splits)
  moreover have "createGoogCall ''require'' (importPathToGoogNamespace host sf u) =
      createGoogCall ''require''
        (createSingleQuoteStringLiteral (stringLiteralText (importPathToGoogNamespace host sf u)))"
    by (rule arg_cong [OF importPath_literal])
  ultimately show ?thesis by (simp add: Let_def split: option.splits)
qed

lemma maybeCreateGoogRequire_other:
  assumes "\<forall>c. call = Some c \<longrightarrow> requireSpecifier c = None"
  shows "maybeCreateGoogRequire host sf orig call newIdent st = (Inl TypeError, st) \<or>
         maybeCreateGoogRequire host sf orig call newIdent st = (Inr None, st)"
proof (cases call)
  case None
  then show ?thesis by (simp add: maybeCreateGoogRequire_def extractRequire_def)
next
  case (Some c)
  with assms have "requireSpecifier c = None" by simp
  from extractRequire_other [OF this] show ?thesis
    by (auto simp: maybeCreateGoogRequire_def Some truthy_def)
qed

lemma extractRequire_call:
  "isCallExpression c \<Longrightarrow> extractRequire (Some c) \<noteq> Inl e"
  apply (cases "kind c"; simp add: extractRequire_def guard_defs)
  subgoal for f args
    apply (cases "kind f"; simp)
    apply (cases args; simp)
    subgoal for r a as
      apply (cases as; simp)
      apply (cases "kind a"; simp)
      done
    done
  done


lemma isExportStarCallee_iff:
  "isExportStarCallee f \<longleftrightarrow>
     (isIdentifier f \<and> textOf f = Some ''__exportStar'') \<or>
     (isIdentifier f \<and> textOf f = Some ''__export'')"
  by (cases "kind f"; simp add: isExportStarCallee_def guard_defs)

lemma not_esModule_identifier_callee:
  "kind n = ExpressionStatement e \<Longrightarrow> kind e = CallExpression f args \<Longrightarrow> isIdentifier f \<Longrightarrow>
     \<not> isEsModuleProperty n"
  by (cases "kind f"; simp add: isEsModuleProperty_def isPropertyAccess_def guard_defs)

lemma call_statement_plain:
  "kind n = ExpressionStatement e \<Longrightarrow> kind e = CallExpression f args \<Longrightarrow>
     \<not> isUseStrict n \<and> rewriteModuleExportsAssignment n = None"
  by (simp add: isUseStrict_def rewriteModuleExportsAssignment_def)

text \<open>The visit of a call statement that is not the ES-module marker.\<close>

lemma visit_call:
  assumes "kind n = ExpressionStatement e" "kind e = CallExpression f args"
    "\<not> isEsModuleProperty n"
  shows "visitTopLevelStatement host sf n st =
     (let ident = createIdentifier (fst (nextModuleVar st));
          st1 = snd (nextModuleVar st)
      in case maybeCreateGoogRequire host sf n
                (if isExportStarCallee f then at args 0 else Some e) ident st1 of
           (Inl err, st2) \<Rightarrow> (Some err, st2)
         | (Inr None, st2) \<Rightarrow> (None, push n st2)
         | (Inr (Some req), st2) \<Rightarrow>
             (None, if isExportStarCallee f
                    then push (createStatement (createCall f
                           (ident # (if length args > 1 then [args ! 1] else []))))
                           (push req st2)
                    else push req st2))"
  using assms call_statement_plain [OF assms(1,2)]
  by (simp add: visitTopLevelStatement_def isExportStarCallee_iff Let_def
      split: prod.splits sum.splits option.splits)


lemma importSpecifier_SomeE:
  assumes "importSpecifier n = Some u"
  obtains (star) e f a as where "kind n = ExpressionStatement e"
      "kind e = CallExpression f (a # as)" "isExportStarCallee f" "requireSpecifier a = Some u"
  | (plain) e f args where "kind n = ExpressionStatement e" "kind e = CallExpression f args"
      "\<not> isExportStarCallee f" "requireSpecifier e = Some u"
  | (var) name i where "kind n = VariableStatement [VariableDeclaration name (Some i)]"
      "isIdentifier name" "isCallExpression i" "requireSpecifier i = Some u"
proof (cases "kind n")
  case (ExpressionStatement e)
  show ?thesis
  proof (cases "kind e")
    case (CallExpression f args)
    show ?thesis
    proof (cases "isExportStarCallee f")
      case True
      with assms ExpressionStatement CallExpression obtain a as where
        "args = a # as" "requireSpecifier a = Some u"
        by (cases args) (simp_all add: importSpecifier_def)
      with True ExpressionStatement CallExpression show ?thesis by (auto intro: star)
    next
      case False
      with assms ExpressionStatement CallExpression have "requireSpecifier e = Some u"
        by (simp add: importSpecifier_def)
      with False ExpressionStatement CallExpression show ?thesis by (auto intro: plain)
    qed
  qed (use assms ExpressionStatement in \<open>simp_all add: importSpecifier_def\<close>)
next
  case (VariableStatement ds)
  from assms VariableStatement
  have "\<exists>name i. ds = [VariableDeclaration name (Some i)] \<and> isIdentifier name \<and>
          isCallExpression i \<and> requireSpecifier i = Some u"
    by (simp add: importSpecifier_def
        split: list.splits variableDeclaration.splits option.splits if_splits)
  with VariableStatement show ?thesis by (auto intro: var)
qed (use assms in \<open>simp_all add: importSpecifier_def\<close>)


lemma requireSpecifier_callee:
  "requireSpecifier e = Some u \<Longrightarrow> kind e = CallExpression f args \<Longrightarrow> isIdentifier f"
  by (drule requireSpecifier_SomeD) (auto simp: isIdentifier_def expression_def)

lemma isExportStarCallee_identifier: "isExportStarCallee f \<Longrightarrow> isIdentifier f"
  by (auto simp: isExportStarCallee_iff)

lemma isStarReExport_iff:
  "kind n = ExpressionStatement e \<Longrightarrow> kind e = CallExpression f args \<Longrightarrow>
     isStarReExport n \<longleftrightarrow> isExportStarCallee f \<and> importSpecifier n \<noteq> None"
  by (simp add: isStarReExport_def)

lemma isStarReExport_var: "kind n = VariableStatement ds \<Longrightarrow> \<not> isStarReExport n"
  by (simp add: isStarReExport_def)

text \<open>What the visit of an import statement does.\<close>

lemma visit_import:
  assumes imp: "importSpecifier n = Some u"
    and ns_def: "ns = stringLiteralText (importPathToGoogNamespace host sf u)"
  shows "\<exists>st' tail.
     visitTopLevelStatement host sf n st = (None, st') \<and>
     stmts st' = stmts st @
        requireDeclaration n (boundIdentifier n st)
          (case namespaceToModuleVarName st ns of
             None \<Rightarrow> createGoogCall ''require'' (createSingleQuoteStringLiteral ns)
           | Some ident \<Rightarrow> ident) # tail \<and>
     length tail = outputCount n - 1 \<and>
     namespaceToModuleVarName st' =
        (case namespaceToModuleVarName st ns of
           None \<Rightarrow> (namespaceToModuleVarName st)(ns \<mapsto> boundIdentifier n st)
         | Some _ \<Rightarrow> namespaceToModuleVarName st) \<and>
     modulesManifest st' = modulesManifest st @ [AddReferencedModule (fileName sf) ns]"
  using imp
proof (cases rule: importSpecifier_SomeE)
  case (star e f a as)
  have nes: "\<not> isEsModuleProperty n"
    using star(1,2) isExportStarCallee_identifier [OF star(3)]
    by (rule not_esModule_identifier_callee)
  have sr: "isStarReExport n"
    using star imp by (simp add: isStarReExport_iff)
  have bi: "boundIdentifier n st = createIdentifier (fst (nextModuleVar st))"
    using star by (simp add: boundIdentifier_def)
  show ?thesis
    using star(3) sr
    by (simp add: visit_call [OF star(1,2) nes] at_def maybeCreateGoogRequire_import [OF star(4)]
        bi ns_def Let_def push_def nextModuleVar_def outputCount_def split: option.splits)
next
  case (plain e f args)
  have nes: "\<not> isEsModuleProperty n"
    using plain(1,2) requireSpecifier_callee [OF plain(4,2)]
    by (rule not_esModule_identifier_callee)
  have sr: "\<not> isStarReExport n"
    using plain by (simp add: isStarReExport_iff)
  have bi: "boundIdentifier n st = createIdentifier (fst (nextModuleVar st))"
    using plain by (simp add: boundIdentifier_def)
  show ?thesis
    using plain(3) sr
    by (simp add: visit_call [OF plain(1,2) nes] maybeCreateGoogRequire_import [OF plain(4)]
        bi ns_def Let_def push_def nextModuleVar_def outputCount_def split: option.splits)
next
  case (var name i)
  have sr: "\<not> isStarReExport n"
    using var by (simp add: isStarReExport_var)
  have bi: "boundIdentifier n st = name"
    using var by (simp add: boundIdentifier_def)
  show ?thesis
    using var(1,2,3) sr
    by (simp add: visitTopLevelStatement_def maybeCreateGoogRequire_import [OF var(4)]
        bi ns_def Let_def push_def outputCount_def split: option.splits)
qed

lemma importSpecifier_call:
  "kind n = ExpressionStatement e \<Longrightarrow> kind e = CallExpression f args \<Longrightarrow>
     importSpecifier n =
       (if isExportStarCallee f then (case args of [] \<Rightarrow> None | a # _ \<Rightarrow> requireSpecifier a)
        else requireSpecifier e)"
  by (simp add: importSpecifier_def)

lemma visit_call_nonimport:
  assumes n: "kind n = ExpressionStatement e" and e: "kind e = CallExpression f args"
    and nes: "\<not> isEsModuleProperty n" and ni: "importSpecifier n = None"
  shows "visitTopLevelStatement host sf n st = (Some TypeError, snd (nextModuleVar st)) \<or>
         visitTopLevelStatement host sf n st = (None, push n (snd (nextModuleVar st)))"
proof -
  have "\<forall>c. (if isExportStarCallee f then at args 0 else Some e) = Some c
          \<longrightarrow> requireSpecifier c = None"
    using ni by (cases args) (auto simp: importSpecifier_call [OF n e] at_def split: if_splits)
  from maybeCreateGoogRequire_other [OF this, of host sf n
      "createIdentifier (fst (nextModuleVar st))" "snd (nextModuleVar st)"]
  show ?thesis
    by (auto simp: visit_call [OF n e nes] Let_def)
qed

lemma maybeCreateGoogRequire_call_other:
  assumes "isCallExpression c" "requireSpecifier c = None"
  shows "maybeCreateGoogRequire host sf orig (Some c) newIdent st = (Inr None, st)"
proof -
  from extractRequire_other [OF assms(2)] extractRequire_call [OF assms(1)]
  have "extractRequire (Some c) = Inr None \<or> extractRequire (Some c) = Inr (Some [])"
    by blast
  then show ?thesis
    by (auto simp: maybeCreateGoogRequire_def truthy_def)
qed

text \<open>What the visit of a statement that imports nothing does.\<close>

lemma visit_nonimport:
  assumes ni: "importSpecifier n = None"
    and v: "visitTopLevelStatement host sf n st = (r, st')"
  shows "namespaceToModuleVarName st' = namespaceToModuleVarName st \<and>
         modulesManifest st' = modulesManifest st \<and>
         (case r of None \<Rightarrow> \<exists>x. stmts st' = stmts st @ [x] | Some _ \<Rightarrow> stmts st' = stmts st)"
proof (cases "kind n")
  case (ExpressionStatement e)
  show ?thesis
  proof (cases "isUseStrict n \<or> isEsModuleProperty n")
    case True
    then show ?thesis
      using ExpressionStatement v by (auto simp: visitTopLevelStatement_def push_def)
  next
    case False
    show ?thesis
    proof (cases "kind e")
      case (CallExpression f args)
      from visit_call_nonimport [OF ExpressionStatement CallExpression _ ni, of host sf st] False v
      show ?thesis
        by (auto simp: push_def nextModuleVar_def)
    next
      case (BinaryExpression l op r)
      show ?thesis
        using ExpressionStatement BinaryExpression False v
        by (cases "rewriteModuleExportsAssignment n")
           (auto simp: visitTopLevelStatement_def push_def)
    qed (use ExpressionStatement False v in
          \<open>auto simp: visitTopLevelStatement_def push_def rewriteModuleExportsAssignment_def\<close>)
  qed
next
  case (VariableStatement ds)
  show ?thesis
  proof (cases "\<exists>name i. ds = [VariableDeclaration name (Some i)] \<and> isIdentifier name \<and>
      isCallExpression i")
    case True
    then obtain name i where ds: "ds = [VariableDeclaration name (Some i)]"
      and nm: "isIdentifier name" and ic: "isCallExpression i" by blast
    have "requireSpecifier i = None"
      using ni VariableStatement ds nm ic by (simp add: importSpecifier_def)
    from maybeCreateGoogRequire_call_other [OF ic this]
    have "maybeCreateGoogRequire host sf n (Some i) name st = (Inr None, st)" .
    then show ?thesis
      using VariableStatement ds nm ic v by (auto simp: visitTopLevelStatement_def push_def)
  next
    case False
    then have "visitTopLevelStatement host sf n st = (None, push n st)"
      using VariableStatement
      by (simp add: visitTopLevelStatement_def
          split: list.splits variableDeclaration.splits option.splits)
    then show ?thesis using v by (auto simp: push_def)
  qed
qed (use v in \<open>auto simp: visitTopLevelStatement_def push_def\<close>)


lemma outputCount_nonimport: "importSpecifier n = None \<Longrightarrow> outputCount n = 1"
  by (simp add: outputCount_def isStarReExport_def split: syntaxKind.splits)

lemma outputCount_pos: "0 < outputCount n"
  by (simp add: outputCount_def)

lemma importedNamespace_None:
  "importedNamespace host sf n = None \<longleftrightarrow> importSpecifier n = None"
  by (simp add: importedNamespace_def)

text \<open>One visit, summarised: the manifest, the output, the table of bound namespaces.\<close>

lemma visit_summary:
  assumes v: "visitTopLevelStatement host sf n st = (r, st')"
  shows visit_manifest: "modulesManifest st' = modulesManifest st @
           map (AddReferencedModule (fileName sf))
             (case importedNamespace host sf n of None \<Rightarrow> [] | Some ns \<Rightarrow> [ns])"
    and visit_output: "r = None \<Longrightarrow> \<exists>chunk. stmts st' = stmts st @ chunk \<and> length chunk = outputCount n"
    and visit_table_other: "importedNamespace host sf n \<noteq> Some ns \<Longrightarrow>
           namespaceToModuleVarName st' ns = namespaceToModuleVarName st ns"
    and visit_table_mono: "namespaceToModuleVarName st ns = Some i \<Longrightarrow>
           namespaceToModuleVarName st' ns = Some i"
    and visit_import_returns: "importedNamespace host sf n \<noteq> None \<Longrightarrow> r = None"
proof -
  show "modulesManifest st' = modulesManifest st @
           map (AddReferencedModule (fileName sf))
             (case importedNamespace host sf n of None \<Rightarrow> [] | Some ns \<Rightarrow> [ns])"
  proof (cases "importSpecifier n")
    case None
    with visit_nonimport [OF None v] show ?thesis by (simp add: importedNamespace_def)
  next
    case (Some u)
    from visit_import [OF Some refl, of host sf st] v show ?thesis
      by (auto simp: importedNamespace_def Some)
  qed
  show "\<exists>chunk. stmts st' = stmts st @ chunk \<and> length chunk = outputCount n" if "r = None"
  proof (cases "importSpecifier n")
    case None
    with visit_nonimport [OF None v] that show ?thesis
      by (auto simp: outputCount_nonimport)
  next
    case (Some u)
    from visit_import [OF Some refl, of host sf st] v outputCount_pos [of n] show ?thesis
      by auto
  qed
  show "namespaceToModuleVarName st' ns = namespaceToModuleVarName st ns"
    if "importedNamespace host sf n \<noteq> Some ns"
  proof (cases "importSpecifier n")
    case None
    with visit_nonimport [OF None v] show ?thesis by simp
  next
    case (Some u)
    from visit_import [OF Some refl, of host sf st] v that show ?thesis
      by (auto simp: importedNamespace_def Some split: option.splits)
  qed
  show "namespaceToModuleVarName st' ns = Some i" if "namespaceToModuleVarName st ns = Some i"
  proof (cases "importSpecifier n")
    case None
    with visit_nonimport [OF None v] that show ?thesis by simp
  next
    case (Some u)
    from visit_import [OF Some refl, of host sf st] v that show ?thesis
      by (auto split: option.splits)
  qed
  show "r = None" if "importedNamespace host sf n \<noteq> None"
  proof -
    from that obtain u where Some: "importSpecifier n = Some u"
      by (auto simp: importedNamespace_None)
    from visit_import [OF Some refl, of host sf st] v show ?thesis by auto
  qed
qed

subsection \<open>The loop\<close>

lemma visits_append:
  "visitTopLevelStatements host sf (xs @ ys) st =
     (case visitTopLevelStatements host sf xs st of
        (Some e, s) \<Rightarrow> (Some e, s)
      | (None, s) \<Rightarrow> visitTopLevelStatements host sf ys s)"
  by (induction xs arbitrary: st) (auto split: prod.splits option.splits)


lemma visits_manifest_any:
  "visitTopLevelStatements host sf xs st = (r, st') \<Longrightarrow>
     \<exists>calls. modulesManifest st' = modulesManifest st @ calls \<and> filter isAddModule calls = []"
proof (induction xs arbitrary: st)
  case Nil
  then show ?case by simp
next
  case (Cons x xs)
  obtain r1 s where v: "visitTopLevelStatement host sf x st = (r1, s)" by force
  have m: "\<exists>calls. modulesManifest s = modulesManifest st @ calls \<and> filter isAddModule calls = []"
    using visit_manifest [OF v] by (auto simp: isAddModule_def split: option.splits)
  show ?case
  proof (cases r1)
    case None
    with Cons.prems v have "visitTopLevelStatements host sf xs s = (r, st')" by simp
    from Cons.IH [OF this] m show ?thesis by auto
  next
    case (Some e)
    with Cons.prems v have "st' = s" by simp
    with m show ?thesis by simp
  qed
qed

lemma visits_table_other:
  "visitTopLevelStatements host sf xs st = (r, st') \<Longrightarrow>
   \<forall>n \<in> set xs. importedNamespace host sf n \<noteq> Some ns \<Longrightarrow>
     namespaceToModuleVarName st' ns = namespaceToModuleVarName st ns"
proof (induction xs arbitrary: st)
  case Nil
  then show ?case by simp
next
  case (Cons x xs)
  obtain r1 s where v: "visitTopLevelStatement host sf x st = (r1, s)" by force
  have t: "namespaceToModuleVarName s ns = namespaceToModuleVarName st ns"
    using visit_table_other [OF v] Cons.prems(2) by simp
  show ?case
  proof (cases r1)
    case None
    with Cons.prems v have "visitTopLevelStatements host sf xs s = (r, st')" by simp
    from Cons.IH [OF this] Cons.prems(2) t show ?thesis by simp
  next
    case (Some e)
    with Cons.prems v have "st' = s" by simp
    with t show ?thesis by simp
  qed
qed

lemma visits_table_mono:
  "visitTopLevelStatements host sf xs st = (r, st') \<Longrightarrow>
   namespaceToModuleVarName st ns = Some i \<Longrightarrow> namespaceToModuleVarName st' ns = Some i"
proof (induction xs arbitrary: st)
  case Nil
  then show ?case by simp
next
  case (Cons x xs)
  obtain r1 s where v: "visitTopLevelStatement host sf x st = (r1, s)" by force
  have t: "namespaceToModuleVarName s ns = Some i"
    using visit_table_mono [OF v Cons.prems(2)] .
  show ?case
  proof (cases r1)
    case None
    with Cons.prems v have "visitTopLevelStatements host sf xs s = (r, st')" by simp
    from Cons.IH [OF this t] show ?thesis .
  next
    case (Some e)
    with Cons.prems v have "st' = s" by simp
    with t show ?thesis by simp
  qed
qed

lemma visits_output:
  "visitTopLevelStatements host sf xs st = (None, st') \<Longrightarrow>
     \<exists>out. stmts st' = stmts st @ out \<and> length out = sum_list (map outputCount xs)"
proof (induction xs arbitrary: st)
  case Nil
  then show ?case by simp
next
  case (Cons x xs)
  from Cons.prems obtain s where v: "visitTopLevelStatement host sf x st = (None, s)"
    and rest: "visitTopLevelStatements host sf xs s = (None, st')"
    by (auto split: prod.splits option.splits)
  from Cons.IH [OF rest] visit_output [OF v] show ?case by auto
qed

lemmas create_defs = createIdentifier_def createPropertyAccess_def createCall_def
  createStatement_def createBinary_def createAssignment_def createObjectLiteral_def
  createPropertyAssignment_def createVariableDeclaration_def createVariableDeclarationList_def
  createVariableStatement_def createNotEmittedStatement_def setOriginalNode_def
  createSingleQuoteStringLiteral_def createGoogCall_def createParen_def
  parenthesizeExpressionForList_def parenthesizeBinaryOperand_def
  binaryOperandNeedsParentheses_def getExpressionPrecedence_def operatorPrecedence_def
  rightAssociativeOperator_def rightAssociativeExpression_def isYieldExpression_def
  isParenthesizedExpression_def

section \<open>Rewriting an assignment to the exports\<close>

text \<open>
  C6, as the code has it: For any expression \<open>X\<close>, the statement
  \<^verbatim>\<open>module.exports = X;\<close> is rewritten into \<^verbatim>\<open>exports = X;\<close> (the new statement keeps
  the old one as its original node), where the factory of the assignment puts \<open>X\<close> in
  parentheses when its precedence is below that of the assignment and \<open>X\<close> is not a
  \<^verbatim>\<open>yield\<close> (or when it has the precedence of the assignment and does not associate to
  the right, as no assignment does), and carries it over as it is otherwise. A statement
  \<^verbatim>\<open>exports = X;\<close> is put into the output as it is. Nothing else of the state changes.
\<close>

theorem module_exports_assignment:
  "visitTopLevelStatement host sf
     (Node (ExpressionStatement
        (Node (BinaryExpression
           (Node (PropertyAccessExpression (Node (Identifier ''module'') o1) ''exports'') o2)
           EqualsToken X) o3)) o4) st =
   (None, st\<lparr>stmts := stmts st @
      [Node (ExpressionStatement
         (Node (BinaryExpression (Node (Identifier ''exports'') None) EqualsToken
            (if (getExpressionPrecedence X < 3 \<and> \<not> isYieldExpression X) \<or>
                (getExpressionPrecedence X = 3 \<and> \<not> rightAssociativeExpression X)
             then Node (ParenthesizedExpression X) None else X)) None))
         (Some (Node (ExpressionStatement
            (Node (BinaryExpression
               (Node (PropertyAccessExpression (Node (Identifier ''module'') o1) ''exports'') o2)
               EqualsToken X) o3)) o4))]\<rparr>)
   \<and> visitTopLevelStatement host sf
     (Node (ExpressionStatement
        (Node (BinaryExpression (Node (Identifier ''exports'') o1) EqualsToken X) o3)) o4) st =
   (None, st\<lparr>stmts := stmts st @
      [Node (ExpressionStatement
        (Node (BinaryExpression (Node (Identifier ''exports'') o1) EqualsToken X) o3)) o4]\<rparr>)"
proof -
  have p: "parenthesizeBinaryOperand EqualsToken X False =
      (if (getExpressionPrecedence X < 3 \<and> \<not> isYieldExpression X) \<or>
          (getExpressionPrecedence X = 3 \<and> \<not> rightAssociativeExpression X)
       then Node (ParenthesizedExpression X) None else X)"
    by (cases "kind X")
      (auto simp add: parenthesizeBinaryOperand_def binaryOperandNeedsParentheses_def
        createParen_def operatorPrecedence_def rightAssociativeOperator_def
        isParenthesizedExpression_def isYieldExpression_def getExpressionPrecedence_def)
  have l: "parenthesizeBinaryOperand EqualsToken (createIdentifier ''exports'') True =
      Node (Identifier ''exports'') None"
    by (simp add: parenthesizeBinaryOperand_def binaryOperandNeedsParentheses_def
        createIdentifier_def operatorPrecedence_def isParenthesizedExpression_def
        getExpressionPrecedence_def)
  show ?thesis
    by (simp add: visitTopLevelStatement_def isUseStrict_def isEsModuleProperty_def
      rewriteModuleExportsAssignment_def isPropertyAccess_def push_def guard_defs
      createAssignment_def createBinary_def createStatement_def setOriginalNode_def p l
      escapeLeadingUnderscores_def)
qed

theorem module_exports_assignment_witness:
  "emitted exampleHost (exampleFile []) (moduleExportsAssignment (requireCall ''./a''))
     (initialState []) =
     [Node (ExpressionStatement
        (Node (BinaryExpression (Node (Identifier ''exports'') None) EqualsToken
           (requireCall ''./a'')) None))
        (Some (moduleExportsAssignment (requireCall ''./a'')))] \<and>
   emitted exampleHost (exampleFile [])
     (moduleExportsAssignment
        (commaExpression (Node (Identifier ''a'') None) (Node (Identifier ''b'') None)))
     (initialState []) =
     [Node (ExpressionStatement
        (Node (BinaryExpression (Node (Identifier ''exports'') None) EqualsToken
           (Node (ParenthesizedExpression
              (commaExpression (Node (Identifier ''a'') None) (Node (Identifier ''b'') None)))
              None)) None))
        (Some (moduleExportsAssignment
           (commaExpression (Node (Identifier ''a'') None) (Node (Identifier ''b'') None))))] \<and>
   emitted exampleHost (exampleFile []) (exportsAssignment (requireCall ''./a''))
     (initialState []) = [exportsAssignment (requireCall ''./a'')]"
proof -
  have p: "getExpressionPrecedence (requireCall ''./a'') = 17"
    "getExpressionPrecedence (commaExpression (Node (Identifier ''a'') None)
        (Node (Identifier ''b'') None)) = 0"
    "\<not> isYieldExpression (commaExpression (Node (Identifier ''a'') None)
        (Node (Identifier ''b'') None))"
    by code_simp+
  show ?thesis
    using module_exports_assignment [of exampleHost "exampleFile []" None None "requireCall ''./a''"
        None None "initialState []"]
      module_exports_assignment [of exampleHost "exampleFile []" None None
        "commaExpression (Node (Identifier ''a'') None) (Node (Identifier ''b'') None)"
        None None "initialState []"]
    by (simp add: emitted_def moduleExportsAssignment_def exportsAssignment_def p)
qed


text \<open>
  The claim C6 itself (the right-hand side carried over unaltered, for any expression)
  fails for \<^verbatim>\<open>module.exports = new.target;\<close>: the right-hand side of the new statement
  is \<^verbatim>\<open>(new.target)\<close>, a parenthesized expression around the old one.
\<close>

theorem module_exports_operand_parenthesized:
  "emitted exampleHost (exampleFile []) (moduleExportsAssignment newTarget) (initialState []) =
     [Node (ExpressionStatement
        (Node (BinaryExpression (Node (Identifier ''exports'') None) EqualsToken
           (Node (ParenthesizedExpression newTarget) None)) None))
        (Some (moduleExportsAssignment newTarget))]"
  by code_simp


lemmas example_defs = exampleHost_def transpilationHost_def requireCall_def requireStatement_def
  requireVariable_def callStatement_def useStrict_def esModuleMarker_def exampleFile_def

lemmas classifier_defs = isUseStrict_def isEsModuleProperty_def rewriteModuleExportsAssignment_def
  isPropertyAccess_def isModuleExportsAssignment_def isExportsAssignment_def

lemmas run_defs = visitTopLevelStatement_def maybeCreateGoogRequire_def extractRequire_def
  importPathToGoogNamespace_def extractGoogNamespaceImport_def nextModuleVar_def push_def
  at_def truthy_def flag_def stringLiteralText_def initialState_def
  commonJsToGoogmoduleTransformer_def headerStmts_def splice0_def insertionIdx_def
  updateSourceFileNode_def maybeRewriteRequireTslib_def escapeLeadingUnderscores_def

section \<open>The unchecked argument of a star re-export\<close>

text \<open>
  C2: The claim is that no statement shape makes the rewrite throw: a call of
  \<^verbatim>\<open>__exportStar\<close> or \<^verbatim>\<open>__export\<close> whose first argument is absent or is not a call
  expression is to fall through and be copied to the output. The code casts the first
  argument to a call expression without a check, so \<^verbatim>\<open>__exportStar();\<close> and
  \<^verbatim>\<open>__export(foo);\<close> make \<^verbatim>\<open>extractRequire\<close> read a property of \<^verbatim>\<open>undefined\<close>, and
  the run of the transformer on a file with such a statement ends in a TypeError.
\<close>

theorem exportStar_unchecked_argument_throws:
  "fst (visitTopLevelStatement host sf (callStatement ''__exportStar'' []) st) = Some TypeError \<and>
   fst (visitTopLevelStatement host sf (callStatement ''__export'' [createIdentifier ''foo'']) st)
     = Some TypeError \<and>
   snd (commonJsToGoogmoduleTransformer exampleHost []
          (exampleFile [callStatement ''__exportStar'' []])) = Inl TypeError"
  by (simp add: example_defs classifier_defs run_defs guard_defs create_defs)

section \<open>The mode for transpiled JavaScript\<close>

lemma maybeRewriteRequireTslib_eq:
  "maybeRewriteRequireTslib s =
     (case requireTslibArgument s of
        None \<Rightarrow> s
      | Some arg \<Rightarrow>
          Node (ExpressionStatement
            (Node (CallExpression
               (Node (PropertyAccessExpression (Node (Identifier ''goog'') None) ''require'') None)
               [arg]) None))
            (Some s))"
proof (cases "kind s")
  case (ExpressionStatement e)
  show ?thesis
  proof (cases "kind e")
    case (CallExpression f args)
    show ?thesis
    proof (cases "\<exists>a. args = [a]")
      case True
      then obtain a where a: "args = [a]" by blast
      show ?thesis
      proof (cases "isIdentifier f \<and> textOf f = Some ''require'' \<and> isStringLiteral a \<and>
          textOf a = Some ''tslib''")
        case True
        then have "kind f = Identifier ''require''"
          by (cases "kind f") (simp_all add: guard_defs)
        moreover from True obtain q where "kind a = StringLiteral ''tslib'' q"
          by (cases "kind a") (simp_all add: guard_defs)
        ultimately show ?thesis
          using ExpressionStatement CallExpression a
          by (simp add: maybeRewriteRequireTslib_def requireTslibArgument_def guard_defs
              create_defs)
      next
        case False
        then have "requireTslibArgument s = None"
          using ExpressionStatement CallExpression a
          by (cases "kind f"; cases "kind a")
            (simp_all add: requireTslibArgument_def guard_defs)
        with False show ?thesis
          using ExpressionStatement CallExpression a
          by (auto simp add: maybeRewriteRequireTslib_def)
      qed
    next
      case False
      then show ?thesis
        using ExpressionStatement CallExpression
        by (cases args; cases "tl args")
          (auto simp add: maybeRewriteRequireTslib_def requireTslibArgument_def)
    qed
  qed (use ExpressionStatement in
        \<open>simp_all add: maybeRewriteRequireTslib_def requireTslibArgument_def\<close>)
qed (simp_all add: maybeRewriteRequireTslib_def requireTslibArgument_def)

text \<open>
  C9: With the flag \<^verbatim>\<open>isJsTranspilation\<close> set, the output has the statements of the input,
  in their order, where each statement of the exact form \<^verbatim>\<open>require('tslib');\<close> is
  replaced by \<^verbatim>\<open>goog.require('tslib');\<close> (made of the same string literal, with the old
  statement as its original node) and every other statement is the one of the input. No
  header is added.
\<close>

theorem transpilation_mode_output:
  assumes "isJsTranspilation host = Some True"
  shows "snd (commonJsToGoogmoduleTransformer host manifest sf) =
     Inr (sf\<lparr>statements :=
            map (\<lambda>s. case requireTslibArgument s of
                       None \<Rightarrow> s
                     | Some arg \<Rightarrow>
                         Node (ExpressionStatement
                           (Node (CallExpression
                              (Node (PropertyAccessExpression (Node (Identifier ''goog'') None)
                                 ''require'') None)
                              [arg]) None))
                           (Some s))
              (statements sf)\<rparr>)"
  using assms
  by (simp add: commonJsToGoogmoduleTransformer_def flag_def updateSourceFileNode_def Let_def
      maybeRewriteRequireTslib_eq cong: option.case_cong)

theorem transpilation_mode_output_witness:
  "snd (commonJsToGoogmoduleTransformer transpilationHost []
     (exampleFile [useStrict, requireStatement ''tslib'', requireVariable ''a'' ''./a'',
                   requireStatement ''./b''])) =
   Inr (exampleFile [useStrict,
          Node (ExpressionStatement (createGoogCall ''require'' (Node (StringLiteral ''tslib'' False) None)))
            (Some (requireStatement ''tslib'')),
          requireVariable ''a'' ''./a'', requireStatement ''./b''])"
  using transpilation_mode_output [of transpilationHost "[]"
     "exampleFile [useStrict, requireStatement ''tslib'', requireVariable ''a'' ''./a'',
                   requireStatement ''./b'']"]
  by (simp add: example_defs requireTslibArgument_def create_defs)

section \<open>The calls of the manifest\<close>

lemma transformer_manifest_any:
  "\<exists>calls. fst (commonJsToGoogmoduleTransformer host manifest sf) =
      manifest @ AddModule (fileName sf) (pathToModuleName host [] (fileName sf)) # calls \<and>
      filter isAddModule calls = []"
proof (cases "flag (isJsTranspilation host)")
  case True
  then show ?thesis by (simp add: commonJsToGoogmoduleTransformer_def Let_def)
next
  case False
  obtain r st where run: "visitTopLevelStatements host sf (statements sf)
      (initialState (manifest @ [AddModule (fileName sf) (pathToModuleName host [] (fileName sf))]))
      = (r, st)" by force
  from visits_manifest_any [OF run] obtain calls where
    "modulesManifest st = manifest @ AddModule (fileName sf) (pathToModuleName host [] (fileName sf)) # calls"
    "filter isAddModule calls = []"
    by (auto simp: initialState_def)
  then show ?thesis
    using False run
    by (cases r) (simp_all add: commonJsToGoogmoduleTransformer_def Let_def)
qed

text \<open>
  C10: In both modes, and also when the rewrite throws, the first call a run makes on the
  manifest is \<^verbatim>\<open>addModule(fileName, pathToModuleName('', fileName))\<close>, and it is the only
  call of \<^verbatim>\<open>addModule\<close> of the run.
\<close>

theorem addModule_once:
  "take (Suc (length manifest)) (fst (commonJsToGoogmoduleTransformer host manifest sf)) =
     manifest @ [AddModule (fileName sf) (pathToModuleName host [] (fileName sf))] \<and>
   filter isAddModule (drop (length manifest)
      (fst (commonJsToGoogmoduleTransformer host manifest sf))) =
     [AddModule (fileName sf) (pathToModuleName host [] (fileName sf))]"
proof -
  from transformer_manifest_any [of host manifest sf] obtain calls where
    m: "fst (commonJsToGoogmoduleTransformer host manifest sf) =
      manifest @ AddModule (fileName sf) (pathToModuleName host [] (fileName sf)) # calls"
    and c: "filter isAddModule calls = []" by blast
  show ?thesis by (simp add: m c isAddModule_def)
qed

theorem addModule_once_witness:
  "filter isAddModule (fst (commonJsToGoogmoduleTransformer transpilationHost []
      (exampleFile [requireStatement ''tslib'']))) = [AddModule ''f.ts'' ''f.ts''] \<and>
   filter isAddModule (fst (commonJsToGoogmoduleTransformer exampleHost []
      (exampleFile [requireStatement ''./a'', callStatement ''__exportStar'' []]))) =
     [AddModule ''f.ts'' ''f.ts'']"
  using addModule_once [of "[]" transpilationHost "exampleFile [requireStatement ''tslib'']"]
    addModule_once [of "[]" exampleHost
      "exampleFile [requireStatement ''./a'', callStatement ''__exportStar'' []]"]
  by (simp add: example_defs)




section \<open>The substitution of default accesses\<close>

lemma truthy_goog: "truthy (extractGoogNamespaceImport t) \<longleftrightarrow> isGoogSpecifier t"
  by (auto simp: truthy_def extractGoogNamespaceImport_def isGoogSpecifier_def)

lemmas hook_example_defs = noPreviousHook_def noSymbols_def importDeclaration_def
  importedIdentifier_def defaultAccess_def namespaceImportSymbols_def

lemmas hook_defs = importExportDecl_def moduleSpecifier_def specifierText_def isGoogSpecifier_def
  isImportDeclaration_def isExportDeclaration_def isIdentifier_def textOf_def
  createPropertyAccess_def createIdentifier_def

text \<open>
  The rule of the hook, where it can read the text of the module specifier of the
  declaration it traces an identifier to: it replaces the node it got from the previous
  hook by the base identifier if and only if that node is an access \<^verbatim>\<open><ident>.default\<close>
  whose base is an identifier traced (by its original node first, otherwise by the
  grandparent of the first declaration of its symbol) to an import or export declaration
  whose specifier is \<^verbatim>\<open>goog:\<close> followed by a namespace that is not empty. In every other
  case it returns the node as it got it.
\<close>

lemma default_access_substitution:
  assumes readable: "\<forall>lhs decl. kind (prev hint n) = PropertyAccessExpression lhs ''default'' \<and>
      isIdentifier lhs \<and> importExportDecl tc lhs = Some decl \<longrightarrow> specifierText decl \<noteq> None"
  shows "onSubstituteNode prev tc hint n =
     Inr (case kind (prev hint n) of
            PropertyAccessExpression lhs name \<Rightarrow>
              if name = ''default'' \<and> isIdentifier lhs \<and>
                 (\<exists>decl t. importExportDecl tc lhs = Some decl \<and> specifierText decl = Some t \<and>
                    isGoogSpecifier t)
              then lhs else prev hint n
          | _ \<Rightarrow> prev hint n)"
proof (cases "kind (prev hint n)")
  case (PropertyAccessExpression lhs name)
  show ?thesis
  proof (cases "name = ''default'' \<and> isIdentifier lhs")
    case True
    show ?thesis
    proof (cases "importExportDecl tc lhs")
      case None
      with True PropertyAccessExpression show ?thesis
        by (simp add: onSubstituteNode_def Let_def)
    next
      case (Some decl)
      with readable True PropertyAccessExpression obtain t where "specifierText decl = Some t"
        by auto
      with True PropertyAccessExpression Some show ?thesis
        by (auto simp: onSubstituteNode_def Let_def specifierText_def truthy_goog split: option.splits)
    qed
  next
    case False
    with PropertyAccessExpression show ?thesis
      by (auto simp: onSubstituteNode_def Let_def)
  qed
qed (simp_all add: onSubstituteNode_def Let_def)

lemma default_access_examples:
  "onSubstituteNode noPreviousHook noSymbols ()
     (defaultAccess (importedIdentifier ''foo'' ''goog:foo.Bar'')) =
     Inr (importedIdentifier ''foo'' ''goog:foo.Bar'') \<and>
   onSubstituteNode noPreviousHook noSymbols ()
     (defaultAccess (importedIdentifier ''foo'' ''./foo'')) =
     Inr (defaultAccess (importedIdentifier ''foo'' ''./foo'')) \<and>
   onSubstituteNode noPreviousHook (namespaceImportSymbols ''goog:foo.Bar'') ()
     (defaultAccess (createIdentifier ''foo'')) = Inr (createIdentifier ''foo'') \<and>
   onSubstituteNode noPreviousHook noSymbols ()
     (defaultAccess (createIdentifier ''foo'')) = Inr (defaultAccess (createIdentifier ''foo''))"
proof -
  have a: "\<forall>lhs decl. kind (noPreviousHook ()
        (defaultAccess (importedIdentifier ''foo'' ''goog:foo.Bar''))) =
        PropertyAccessExpression lhs ''default'' \<and>
      isIdentifier lhs \<and> importExportDecl noSymbols lhs = Some decl \<longrightarrow>
      specifierText decl \<noteq> None"
    by (auto simp: hook_example_defs hook_defs)
  have b: "\<forall>lhs decl. kind (noPreviousHook ()
        (defaultAccess (importedIdentifier ''foo'' ''./foo''))) =
        PropertyAccessExpression lhs ''default'' \<and>
      isIdentifier lhs \<and> importExportDecl noSymbols lhs = Some decl \<longrightarrow>
      specifierText decl \<noteq> None"
    by (auto simp: hook_example_defs hook_defs)
  have c: "\<forall>lhs decl. kind (noPreviousHook () (defaultAccess (createIdentifier ''foo''))) =
        PropertyAccessExpression lhs ''default'' \<and>
      isIdentifier lhs \<and> importExportDecl (namespaceImportSymbols ''goog:foo.Bar'') lhs = Some decl
      \<longrightarrow> specifierText decl \<noteq> None"
    by (auto simp: hook_example_defs hook_defs)
  have d: "\<forall>lhs decl. kind (noPreviousHook () (defaultAccess (createIdentifier ''foo''))) =
        PropertyAccessExpression lhs ''default'' \<and>
      isIdentifier lhs \<and> importExportDecl noSymbols lhs = Some decl
      \<longrightarrow> specifierText decl \<noteq> None"
    by (auto simp: hook_example_defs hook_defs)
  show ?thesis
    using
      default_access_substitution [where prev = noPreviousHook and tc = noSymbols, OF a]
      default_access_substitution [where prev = noPreviousHook and tc = noSymbols, OF b]
      default_access_substitution [where prev = noPreviousHook
        and tc = "namespaceImportSymbols ''goog:foo.Bar''", OF c]
      default_access_substitution [where prev = noPreviousHook and tc = noSymbols, OF d]
    by (simp add: hook_example_defs hook_defs)
qed

text \<open>
  The order of the tracing: of the declarations of a symbol the first one counts, and the
  symbol is only asked when the original node of the identifier is no import or export
  declaration.
\<close>

lemma default_access_tracing_order:
  "onSubstituteNode noPreviousHook (importSymbols [''goog:foo.Bar'', ''./foo'']) ()
     (defaultAccess (createIdentifier ''foo'')) = Inr (createIdentifier ''foo'') \<and>
   onSubstituteNode noPreviousHook (importSymbols [''./foo'', ''goog:foo.Bar'']) ()
     (defaultAccess (createIdentifier ''foo'')) = Inr (defaultAccess (createIdentifier ''foo'')) \<and>
   onSubstituteNode noPreviousHook (importSymbols [''goog:foo.Bar'']) ()
     (defaultAccess (importedIdentifier ''foo'' ''./foo'')) =
     Inr (defaultAccess (importedIdentifier ''foo'' ''./foo''))"
  by code_simp

text \<open>
  C7: The claim is that an access \<^verbatim>\<open><ident>.default\<close> is replaced by \<^verbatim>\<open><ident>\<close> if and
  only if the identifier is traced to a declaration whose module specifier begins with
  \<^verbatim>\<open>goog:\<close>. The hook tests the result of \<^verbatim>\<open>extractGoogNamespaceImport\<close> for truthiness,
  and for the specifier \<^verbatim>\<open>goog:\<close> that result is the empty string, not \<^verbatim>\<open>null\<close>: the
  access of an identifier imported from \<^verbatim>\<open>goog:\<close> stays as it is, where the access of one
  imported from \<^verbatim>\<open>goog:foo.Bar\<close> is replaced by the identifier. The function
  \<^verbatim>\<open>importPathToGoogNamespace\<close>, which compares the same result with \<^verbatim>\<open>null\<close>, takes
  \<^verbatim>\<open>goog:\<close> for the import of the namespace with the empty name.
\<close>

theorem bare_goog_specifier_not_substituted:
  "onSubstituteNode noPreviousHook noSymbols ()
     (defaultAccess (importedIdentifier ''foo'' ''goog:'')) =
     Inr (defaultAccess (importedIdentifier ''foo'' ''goog:'')) \<and>
   onSubstituteNode noPreviousHook noSymbols ()
     (defaultAccess (importedIdentifier ''foo'' ''goog:foo.Bar'')) =
     Inr (importedIdentifier ''foo'' ''goog:foo.Bar'') \<and>
   extractGoogNamespaceImport ''goog:'' = Some [] \<and>
   importPathToGoogNamespace exampleHost (exampleFile []) ''goog:'' =
     Node (StringLiteral [] True) None"
  by code_simp





section \<open>The place of the header\<close>

text \<open>
  C3, as the code has it: when the rewritten body begins with placeholders \<open>ps\<close> (one or
  more not-emitted statements), the header is inserted after the first of them, at index
  1: the output is the first placeholder, the header, the other placeholders, and the
  rest of the body. So the header comes after all the leading placeholders when there is
  one of them. The header begins with the statement \<^verbatim>\<open>goog.module('...')\<close>, followed by
  \<^verbatim>\<open>var module = module || {id: '...'}\<close>.
\<close>

theorem header_after_first_placeholder:
  assumes mode: "\<not> flag (isJsTranspilation host)"
    and run: "fst (bodyRun host manifest sf) = None"
    and body: "stmts (snd (bodyRun host manifest sf)) = ps @ rest"
    and ps: "ps \<noteq> []" "\<forall>p \<in> set ps. isNotEmittedStatement p"
  shows "snd (commonJsToGoogmoduleTransformer host manifest sf) =
           Inr (sf\<lparr>statements :=
                  take 1 ps @ headerStmts host sf (pathToModuleName host [] (fileName sf)) @
                  drop 1 ps @ rest\<rparr>) \<and>
         take 2 (headerStmts host sf (pathToModuleName host [] (fileName sf))) =
           [createStatement (createGoogCall ''module''
              (createSingleQuoteStringLiteral (pathToModuleName host [] (fileName sf)))),
            createVariableStatement
              [createVariableDeclaration (createIdentifier ''module'')
                 (createBinary (createIdentifier ''module'') BarBarToken
                    (createObjectLiteral
                       [createPropertyAssignment ''id''
                          (createSingleQuoteStringLiteral
                             (fileNameToModuleId host (fileName sf)))]))]]"
proof -
  obtain st where st: "bodyRun host manifest sf = (None, st)"
    using run by (cases "bodyRun host manifest sf") auto
  obtain p ps' where p: "ps = p # ps'" using ps(1) by (cases ps) auto
  with ps(2) have ne: "isNotEmittedStatement p" by simp
  have idx: "insertionIdx (stmts st) = 1"
    using body st p ne by (simp add: insertionIdx_def)
  show ?thesis
    using mode st idx body p
    by (simp add: commonJsToGoogmoduleTransformer_def bodyRun_def Let_def splice0_def
        updateSourceFileNode_def headerStmts_def createVariableDeclarationList_def)
qed

theorem header_after_first_placeholder_witness:
  "snd (commonJsToGoogmoduleTransformer exampleHost []
          (exampleFile [useStrict, callStatement ''foo'' []])) =
     Inr (exampleFile
       ([createNotEmittedStatement useStrict] @
        headerStmts exampleHost (exampleFile [useStrict, callStatement ''foo'' []]) ''f.ts'' @
        [callStatement ''foo'' []]))"
proof -
  let ?F = "exampleFile [useStrict, callStatement ''foo'' []]"
  have mode: "\<not> flag (isJsTranspilation exampleHost)" by code_simp
  have run: "fst (bodyRun exampleHost [] ?F) = None" by code_simp
  have body: "stmts (snd (bodyRun exampleHost [] ?F)) =
      [createNotEmittedStatement useStrict] @ [callStatement ''foo'' []]"
    by code_simp
  have ps: "[createNotEmittedStatement useStrict] \<noteq> []"
    "\<forall>p \<in> set [createNotEmittedStatement useStrict]. isNotEmittedStatement p"
    by code_simp+
  have m: "pathToModuleName exampleHost [] ''f.ts'' = ''f.ts''" by code_simp
  show ?thesis
    using header_after_first_placeholder [OF mode run body ps]
    by (simp add: m exampleFile_def)
qed

text \<open>The four statements of the header, node by node, when no flag of the host is set.\<close>

lemma headerStmts_example:
  "headerStmts exampleHost (exampleFile [callStatement ''foo'' []]) ''f.ts'' =
     [Node (ExpressionStatement
        (Node (CallExpression
           (Node (PropertyAccessExpression (Node (Identifier ''goog'') None) ''module'') None)
           [Node (StringLiteral ''f.ts'' True) None]) None)) None,
      Node (VariableStatement
        [VariableDeclaration (Node (Identifier ''module'') None)
           (Some (Node (BinaryExpression (Node (Identifier ''module'') None) BarBarToken
              (Node (ObjectLiteralExpression
                 [PropertyAssignment (Node (Identifier ''id'') None)
                    (Node (StringLiteral ''f.ts'' True) None)]) None)) None))]) None,
      Node (ExpressionStatement
        (Node (BinaryExpression (Node (Identifier ''module'') None) EqualsToken
           (Node (Identifier ''module'') None)) None)) None,
      Node (ExpressionStatement
        (Node (BinaryExpression (Node (Identifier ''exports'') None) EqualsToken
           (Node (ObjectLiteralExpression []) None)) None)) None]"
  by code_simp

text \<open>
  The claim C3 itself (the header after all the leading placeholders) fails for two of
  them: in a file that begins with the placeholder of its leading comments and
  \<^verbatim>\<open>"use strict";\<close>, which becomes a placeholder, the header stands between the two.
\<close>

theorem header_between_placeholders:
  "map isNotEmittedStatement
     (statements (projr (snd (commonJsToGoogmoduleTransformer exampleHost []
        (exampleFile [commentPlaceholder, useStrict, callStatement ''foo'' []]))))) =
   [True, False, False, False, False, True, False] \<and>
   snd (commonJsToGoogmoduleTransformer exampleHost []
          (exampleFile [commentPlaceholder, useStrict, callStatement ''foo'' []])) =
     Inr (exampleFile
       ([commentPlaceholder] @
        headerStmts exampleHost
          (exampleFile [commentPlaceholder, useStrict, callStatement ''foo'' []]) ''f.ts'' @
        [createNotEmittedStatement useStrict, callStatement ''foo'' []]))"
  by code_simp

section \<open>Synthetic names and the order of the output\<close>

text \<open>Synthetic names of different counter values differ.\<close>

lemma digit_inj:
  assumes "a < 10" "b < 10" "''0123456789'' ! a = ''0123456789'' ! b"
  shows "a = b"
proof -
  have "distinct ''0123456789''" by simp
  moreover have "a < length ''0123456789''" "b < length ''0123456789''" using assms by simp_all
  ultimately show ?thesis using assms(3) by (simp only: nth_eq_iff_index_eq)
qed

lemma decimal_nonempty: "decimal n \<noteq> []"
  by (subst decimal.simps) simp

lemma decimal_last: "last (decimal n) = ''0123456789'' ! (n mod 10)"
  by (subst decimal.simps) simp

lemma decimal_butlast: "butlast (decimal n) = (if n < 10 then [] else decimal (n div 10))"
  by (subst decimal.simps) simp

lemma decimal_inj: "decimal n = decimal m \<Longrightarrow> n = m"
proof (induction n arbitrary: m rule: less_induct)
  case (less n)
  from less.prems have l: "last (decimal n) = last (decimal m)"
    and b: "butlast (decimal n) = butlast (decimal m)" by simp_all
  from l have md: "n mod 10 = m mod 10"
    by (auto simp: decimal_last intro: digit_inj)
  show ?case
  proof (cases "n < 10")
    case True
    with b decimal_nonempty [of "m div 10"] have "m < 10"
      by (auto simp: decimal_butlast split: if_splits)
    with True md show ?thesis by simp
  next
    case False
    with b decimal_nonempty [of "n div 10"] have m: "\<not> m < 10"
      and d: "decimal (n div 10) = decimal (m div 10)"
      by (auto simp: decimal_butlast split: if_splits)
    from False have "n div 10 < n" by simp
    from less.IH [OF this d] have "n div 10 = m div 10" .
    with md show ?thesis by (metis div_mult_mod_eq)
  qed
qed

lemma moduleVar_inj:
  "''tsickle_module_'' @ decimal n @ ''_'' = ''tsickle_module_'' @ decimal m @ ''_'' \<longleftrightarrow> n = m"
  by (auto dest: decimal_inj)

lemma star_reexport_visit:
  assumes callee: "w = ''__exportStar'' \<or> w = ''__export''" and url: "url \<noteq> []"
    and c: "callee = Node (Identifier w) o1"
    and i: "inner = Node (CallExpression (Node (Identifier ''require'') o2)
                       [Node (StringLiteral url q) o3]) o4"
    and n: "n = Node (ExpressionStatement (Node (CallExpression callee (inner # others)) o5)) o6"
    and ident: "ident = createIdentifier (''tsickle_module_'' @ decimal (moduleVarCounter st) @ ''_'')"
    and ns: "ns = stringLiteralText (importPathToGoogNamespace host sf url)"
  shows "fst (visitTopLevelStatement host sf n st) = None \<and>
     emitted host sf n st =
        [requireDeclaration n ident
           (case namespaceToModuleVarName st ns of
              None \<Rightarrow> createGoogCall ''require'' (createSingleQuoteStringLiteral ns)
            | Some bound \<Rightarrow> bound),
         createStatement (createCall callee (ident # take 1 others))] \<and>
     moduleVarCounter (snd (visitTopLevelStatement host sf n st)) = moduleVarCounter st + 1"
proof -
  have k: "kind n = ExpressionStatement (Node (CallExpression callee (inner # others)) o5)"
    "kind (Node (CallExpression callee (inner # others)) o5) =
       CallExpression callee (inner # others)"
    using n by simp_all
  have star: "isExportStarCallee callee"
    using callee c by (auto simp: isExportStarCallee_def)
  have nes: "\<not> isEsModuleProperty n"
    using k isExportStarCallee_identifier [OF star] by (rule not_esModule_identifier_callee)
  have rs: "requireSpecifier inner = Some url"
    using i url by (simp add: requireSpecifier_def expression_def arguments_def)
  show ?thesis
    unfolding ns ident using star
    by (cases others)
      (simp_all add: visit_call [OF k nes] at_def maybeCreateGoogRequire_import [OF rs]
        Let_def push_def nextModuleVar_def emitted_def)
qed

lemma emitted_eq:
  "visitTopLevelStatement host sf n st = (r, st') \<Longrightarrow> stmts st' = stmts st @ chunk \<Longrightarrow>
     emitted host sf n st = chunk"
  by (simp add: emitted_def)

lemma outputOf_eq:
  "visitTopLevelStatements host sf xs st = (r, st') \<Longrightarrow> stmts st' = stmts st @ out \<Longrightarrow>
     outputOf host sf xs st = out"
  by (simp add: outputOf_def stateAfter_def)

lemma output_in_order:
  assumes run: "fst (visitTopLevelStatements host sf (pre @ n # post) st) = None"
  shows "outputOf host sf (pre @ n # post) st =
           outputOf host sf pre st @ emitted host sf n (stateAfter host sf pre st) @
           outputOf host sf post (stateAfter host sf (pre @ [n]) st) \<and>
         length (outputOf host sf pre st) = sum_list (map outputCount pre) \<and>
         length (emitted host sf n (stateAfter host sf pre st)) = outputCount n \<and>
         length (outputOf host sf post (stateAfter host sf (pre @ [n]) st)) =
           sum_list (map outputCount post)"
proof -
  obtain s3 where s3: "visitTopLevelStatements host sf (pre @ n # post) st = (None, s3)"
    using run by (cases "visitTopLevelStatements host sf (pre @ n # post) st") auto
  then obtain s1 where s1: "visitTopLevelStatements host sf pre st = (None, s1)"
    and r1: "visitTopLevelStatements host sf (n # post) s1 = (None, s3)"
    by (auto simp: visits_append split: prod.splits option.splits)
  from r1 obtain s2 where s2: "visitTopLevelStatement host sf n s1 = (None, s2)"
    and r2: "visitTopLevelStatements host sf post s2 = (None, s3)"
    by (auto split: prod.splits option.splits)
  have s12: "visitTopLevelStatements host sf (pre @ [n]) st = (None, s2)"
    using s1 s2 by (simp add: visits_append)
  from visits_output [OF s1] obtain A where
    A: "stmts s1 = stmts st @ A" "length A = sum_list (map outputCount pre)" by blast
  from visit_output [OF s2 refl] obtain C where
    C: "stmts s2 = stmts s1 @ C" "length C = outputCount n" by blast
  from visits_output [OF r2] obtain B where
    B: "stmts s3 = stmts s2 @ B" "length B = sum_list (map outputCount post)" by blast
  have "outputOf host sf pre st = A" using s1 A(1) by (rule outputOf_eq)
  moreover have "emitted host sf n (stateAfter host sf pre st) = C"
    using s2 C(1) s1 by (simp add: emitted_def stateAfter_def)
  moreover have "outputOf host sf post (stateAfter host sf (pre @ [n]) st) = B"
    using r2 B(1) s12 by (simp add: outputOf_def stateAfter_def)
  moreover have "outputOf host sf (pre @ n # post) st = A @ C @ B"
    using s3 A(1) B(1) C(1) by (simp add: outputOf_def stateAfter_def)
  ultimately show ?thesis using A(2) B(2) C(2) by simp
qed

section \<open>One require for each namespace\<close>

lemma boundIdentifier_isIdentifier:
  assumes "importSpecifier n = Some u"
  shows "isIdentifier (boundIdentifier n st)"
  using assms
proof (cases rule: importSpecifier_SomeE)
  case (star e f a as)
  then show ?thesis by (simp add: boundIdentifier_def isIdentifier_def createIdentifier_def)
next
  case (plain e f args)
  then show ?thesis by (simp add: boundIdentifier_def isIdentifier_def createIdentifier_def)
next
  case (var name i)
  then show ?thesis by (simp add: boundIdentifier_def)
qed

lemma visit_import_ns:
  assumes "importedNamespace host sf n = Some ns"
  shows "\<exists>st' tail.
     visitTopLevelStatement host sf n st = (None, st') \<and>
     emitted host sf n st =
        requireDeclaration n (boundIdentifier n st)
          (case namespaceToModuleVarName st ns of
             None \<Rightarrow> createGoogCall ''require'' (createSingleQuoteStringLiteral ns)
           | Some ident \<Rightarrow> ident) # tail \<and>
     namespaceToModuleVarName st' ns =
        Some (case namespaceToModuleVarName st ns of
                None \<Rightarrow> boundIdentifier n st | Some ident \<Rightarrow> ident) \<and>
     isIdentifier (boundIdentifier n st)"
proof -
  from assms obtain u where u: "importSpecifier n = Some u"
    and ns: "ns = stringLiteralText (importPathToGoogNamespace host sf u)"
    by (auto simp: importedNamespace_def)
  from visit_import [OF u ns, of st] boundIdentifier_isIdentifier [OF u, of st]
  show ?thesis
    by (auto simp: emitted_def split: option.splits)
qed

lemma parenthesize_identifier: "isIdentifier e \<Longrightarrow> parenthesizeExpressionForList e = e"
  by (cases "kind e")
    (simp_all add: parenthesizeExpressionForList_def getExpressionPrecedence_def
      operatorPrecedence_def isIdentifier_def)

lemma parenthesize_eq:
  "parenthesizeExpressionForList a =
     (if 0 < getExpressionPrecedence a then a else Node (ParenthesizedExpression a) None)"
  by (simp add: parenthesizeExpressionForList_def operatorPrecedence_def createParen_def)

lemma requireDeclaration_eq:
  "requireDeclaration orig ident init =
     Node (VariableStatement [VariableDeclaration ident (Some (parenthesizeExpressionForList init))])
       (Some orig)"
  by (simp add: requireDeclaration_def createVariableStatement_def
      createVariableDeclarationList_def createVariableDeclaration_def setOriginalNode_def)

lemma googRequire_eq:
  "parenthesizeExpressionForList (createGoogCall ''require'' (createSingleQuoteStringLiteral ns)) =
     Node (CallExpression
        (Node (PropertyAccessExpression (Node (Identifier ''goog'') None) ''require'') None)
        [Node (StringLiteral ns True) None]) None"
  by (simp add: create_defs)


text \<open>
  For specifiers that are not empty: Outside the mode for transpiled JavaScript, take a
  run of the loop that returns, a namespace \<open>ns\<close> not bound when the run starts (none
  is, in the initial state), and the first statement \<open>first\<close> of the file that imports
  \<open>ns\<close>: a side-effect \<^verbatim>\<open>require\<close>, a star re-export, or a declaration
  \<^verbatim>\<open>var x = require(...)\<close> with one declarator, with a specifier that is not empty. Then
  the visit of \<open>first\<close> emits the declaration of its identifier with a new call
  \<^verbatim>\<open>goog.require('ns')\<close> as initializer, and the table binds \<open>ns\<close> to that identifier
  until the end of the run; and every later statement of the file that imports \<open>ns\<close>
  emits a declaration whose initializer is that identifier, which is an identifier and
  not a call: the only \<^verbatim>\<open>goog.require\<close> call made for \<open>ns\<close> is the one of the first
  occurrence.
\<close>

lemma namespace_required_once:
  assumes run: "fst (visitTopLevelStatements host sf (pre @ first # rest) st0) = None"
    and fresh: "namespaceToModuleVarName st0 ns = None"
    and pre: "\<forall>n \<in> set pre. importedNamespace host sf n \<noteq> Some ns"
    and first: "importedNamespace host sf first = Some ns"
    and s1: "s1 = stateAfter host sf pre st0"
    and ident: "ident = boundIdentifier first s1"
  shows "isIdentifier ident \<and>
     hd (emitted host sf first s1) =
       Node (VariableStatement
         [VariableDeclaration ident
            (Some (Node (CallExpression
               (Node (PropertyAccessExpression (Node (Identifier ''goog'') None) ''require'') None)
               [Node (StringLiteral ns True) None]) None))])
         (Some first) \<and>
     namespaceToModuleVarName (stateAfter host sf (pre @ first # rest) st0) ns = Some ident \<and>
     (\<forall>mid later post. rest = mid @ later # post \<and> importedNamespace host sf later = Some ns
        \<longrightarrow> hd (emitted host sf later (stateAfter host sf (pre @ first # mid) st0)) =
              Node (VariableStatement
                [VariableDeclaration
                   (boundIdentifier later (stateAfter host sf (pre @ first # mid) st0))
                   (Some ident)])
                (Some later))"
proof -
  obtain s3 where s3: "visitTopLevelStatements host sf (pre @ first # rest) st0 = (None, s3)"
    using run by (cases "visitTopLevelStatements host sf (pre @ first # rest) st0") auto
  then obtain t1 where t1: "visitTopLevelStatements host sf pre st0 = (None, t1)"
    and r1: "visitTopLevelStatements host sf (first # rest) t1 = (None, s3)"
    by (auto simp: visits_append split: prod.splits option.splits)
  have t1s1: "t1 = s1" using t1 s1 by (simp add: stateAfter_def)
  from r1 obtain s2 where v: "visitTopLevelStatement host sf first s1 = (None, s2)"
    and r2: "visitTopLevelStatements host sf rest s2 = (None, s3)"
    unfolding t1s1 by (auto split: prod.splits option.splits)
  have tab1: "namespaceToModuleVarName s1 ns = None"
    using visits_table_other [OF t1 pre] fresh t1s1 by simp
  from visit_import_ns [OF first, of s1] v tab1 ident
  have e1: "hd (emitted host sf first s1) =
       requireDeclaration first ident
         (createGoogCall ''require'' (createSingleQuoteStringLiteral ns))"
    and tab2: "namespaceToModuleVarName s2 ns = Some ident"
    and isid: "isIdentifier ident"
    by auto
  have tab3: "namespaceToModuleVarName (stateAfter host sf (pre @ first # rest) st0) ns = Some ident"
    using visits_table_mono [OF r2 tab2] s3 by (simp add: stateAfter_def)
  have later: "hd (emitted host sf later (stateAfter host sf (pre @ first # mid) st0)) =
              requireDeclaration later
                (boundIdentifier later (stateAfter host sf (pre @ first # mid) st0)) ident"
    if rest: "rest = mid @ later # post" and imp: "importedNamespace host sf later = Some ns"
    for mid later post
  proof -
    from r2 rest obtain s4 where m: "visitTopLevelStatements host sf mid s2 = (None, s4)"
      by (auto simp: visits_append split: prod.splits option.splits)
    have "visitTopLevelStatements host sf (pre @ first # mid) st0 = (None, s4)"
      using t1 t1s1 v m by (simp add: visits_append)
    then have s4: "stateAfter host sf (pre @ first # mid) st0 = s4"
      by (simp add: stateAfter_def)
    have "namespaceToModuleVarName s4 ns = Some ident"
      using visits_table_mono [OF m tab2] .
    with visit_import_ns [OF imp, of s4] show ?thesis
      unfolding s4 by auto
  qed
  have e1': "hd (emitted host sf first s1) =
       Node (VariableStatement
         [VariableDeclaration ident
            (Some (Node (CallExpression
               (Node (PropertyAccessExpression (Node (Identifier ''goog'') None) ''require'') None)
               [Node (StringLiteral ns True) None]) None))])
         (Some first)"
    using e1 by (simp add: requireDeclaration_eq googRequire_eq)
  have later': "hd (emitted host sf later (stateAfter host sf (pre @ first # mid) st0)) =
              Node (VariableStatement
                [VariableDeclaration
                   (boundIdentifier later (stateAfter host sf (pre @ first # mid) st0))
                   (Some ident)])
                (Some later)"
    if "rest = mid @ later # post" "importedNamespace host sf later = Some ns"
    for mid later post
    using later [OF that] isid by (simp add: requireDeclaration_eq parenthesize_identifier)
  from isid e1' tab3 later' show ?thesis by blast
qed


lemma namespace_required_once_example:
  "hd (emitted exampleHost (exampleFile []) (requireStatement ''./a'')
         (stateAfter exampleHost (exampleFile []) [callStatement ''foo'' []] (initialState []))) =
     Node (VariableStatement
       [VariableDeclaration (createIdentifier ''tsickle_module_2_'') (Some (googRequire ''./a''))])
       (Some (requireStatement ''./a'')) \<and>
   hd (emitted exampleHost (exampleFile []) (requireVariable ''b'' ''./a'')
         (stateAfter exampleHost (exampleFile [])
            ([callStatement ''foo'' []] @ requireStatement ''./a'' # []) (initialState []))) =
     Node (VariableStatement
       [VariableDeclaration (createIdentifier ''b'') (Some (createIdentifier ''tsickle_module_2_''))])
       (Some (requireVariable ''b'' ''./a'')) \<and>
   hd (emitted exampleHost (exampleFile [])
         (callStatement ''__export'' [requireCall ''./a''])
         (stateAfter exampleHost (exampleFile [])
            ([callStatement ''foo'' []] @ requireStatement ''./a'' # [requireVariable ''b'' ''./a''])
            (initialState []))) =
     Node (VariableStatement
       [VariableDeclaration (createIdentifier ''tsickle_module_3_'')
          (Some (createIdentifier ''tsickle_module_2_''))])
       (Some (callStatement ''__export'' [requireCall ''./a'']))"
proof -
  let ?F = "exampleFile []"
  let ?pre = "[callStatement ''foo'' []]"
  let ?first = "requireStatement ''./a''"
  let ?var = "requireVariable ''b'' ''./a''"
  let ?star = "callStatement ''__export'' [requireCall ''./a'']"
  let ?rest = "[?var, ?star]"
  have run: "fst (visitTopLevelStatements exampleHost ?F (?pre @ ?first # ?rest) (initialState []))
      = None" by code_simp
  have fresh: "namespaceToModuleVarName (initialState []) ''./a'' = None"
    by (simp add: initialState_def)
  have pre: "\<forall>n \<in> set ?pre. importedNamespace exampleHost ?F n \<noteq> Some ''./a''"
    by code_simp
  have first: "importedNamespace exampleHost ?F ?first = Some ''./a''"
    by code_simp
  note T = namespace_required_once [OF run fresh pre first refl refl]
  have var: "?rest = [] @ ?var # [?star] \<and> importedNamespace exampleHost ?F ?var = Some ''./a''"
    by code_simp
  have star: "?rest = [?var] @ ?star # [] \<and> importedNamespace exampleHost ?F ?star = Some ''./a''"
    by code_simp
  have b1: "boundIdentifier ?first (stateAfter exampleHost ?F ?pre (initialState [])) =
      createIdentifier ''tsickle_module_2_''" by code_simp
  have b2: "boundIdentifier ?var
      (stateAfter exampleHost ?F (?pre @ ?first # []) (initialState [])) = createIdentifier ''b''"
    by code_simp
  have b3: "boundIdentifier ?star
      (stateAfter exampleHost ?F (?pre @ ?first # [?var]) (initialState [])) =
      createIdentifier ''tsickle_module_3_''"
    by code_simp
  from T have A: "hd (emitted exampleHost ?F ?first (stateAfter exampleHost ?F ?pre (initialState [])))
      = Node (VariableStatement
          [VariableDeclaration
             (boundIdentifier ?first (stateAfter exampleHost ?F ?pre (initialState [])))
             (Some (googRequire ''./a''))])
          (Some ?first)"
    unfolding googRequire_def by blast
  from T var have B: "hd (emitted exampleHost ?F ?var
        (stateAfter exampleHost ?F (?pre @ ?first # []) (initialState []))) =
      Node (VariableStatement
        [VariableDeclaration
           (boundIdentifier ?var (stateAfter exampleHost ?F (?pre @ ?first # []) (initialState [])))
           (Some (boundIdentifier ?first (stateAfter exampleHost ?F ?pre (initialState []))))])
        (Some ?var)"
    by blast
  from T star have C: "hd (emitted exampleHost ?F ?star
        (stateAfter exampleHost ?F (?pre @ ?first # [?var]) (initialState []))) =
      Node (VariableStatement
        [VariableDeclaration
           (boundIdentifier ?star
              (stateAfter exampleHost ?F (?pre @ ?first # [?var]) (initialState [])))
           (Some (boundIdentifier ?first (stateAfter exampleHost ?F ?pre (initialState []))))])
        (Some ?star)"
    by blast
  from A B C show ?thesis unfolding b1 b2 b3 by blast
qed

text \<open>
  C1: The claim is that every namespace a unit imports gets exactly one call of
  \<^verbatim>\<open>goog.require\<close>, at its first import. \<^verbatim>\<open>maybeCreateGoogRequire\<close> treats the empty
  specifier, which \<^verbatim>\<open>extractRequire\<close> returns for \<^verbatim>\<open>require('')\<close>, like the \<^verbatim>\<open>null\<close> it
  returns for a call that is no \<^verbatim>\<open>require\<close>: the statements \<^verbatim>\<open>require('');\<close> and
  \<^verbatim>\<open>var x = require('');\<close> go to the output as they are, and a file made of the first
  has no call of \<^verbatim>\<open>goog.require\<close> in its output and no call of \<^verbatim>\<open>addReferencedModule\<close>
  in the manifest, where \<^verbatim>\<open>require('./a');\<close> becomes the declaration of a synthetic
  identifier with the call \<^verbatim>\<open>goog.require('./a')\<close>.
\<close>

theorem empty_specifier_not_required:
  "emitted exampleHost (exampleFile []) (requireStatement []) (initialState []) =
     [requireStatement []] \<and>
   emitted exampleHost (exampleFile []) (requireVariable ''x'' []) (initialState []) =
     [requireVariable ''x'' []] \<and>
   snd (commonJsToGoogmoduleTransformer exampleHost [] (exampleFile [requireStatement []])) =
     Inr (exampleFile
       (headerStmts exampleHost (exampleFile [requireStatement []]) ''f.ts'' @
        [requireStatement []])) \<and>
   fst (commonJsToGoogmoduleTransformer exampleHost [] (exampleFile [requireStatement []])) =
     [AddModule ''f.ts'' ''f.ts''] \<and>
   emitted exampleHost (exampleFile []) (requireStatement ''./a'') (initialState []) =
     [Node (VariableStatement
        [VariableDeclaration (Node (Identifier ''tsickle_module_1_'') None)
           (Some (googRequire ''./a''))])
        (Some (requireStatement ''./a''))]"
  by code_simp


section \<open>Star re-exports\<close>

lemma requireArgument_None:
  assumes "isCallExpression c" "requireArgument c = None"
  shows "requireSpecifier c = None"
proof -
  from assms(1) obtain f args where c: "kind c = CallExpression f args"
    by (cases "kind c") (simp_all add: isCallExpression_def)
  show ?thesis
  proof (cases "requireSpecifier c")
    case None
    then show ?thesis .
  next
    case (Some u)
    from requireSpecifier_SomeD [OF Some] c assms(2) show ?thesis
      by (auto simp: requireArgument_def expression_def arguments_def)
  qed
qed

lemma maybeCreateGoogRequire_counter:
  "moduleVarCounter (snd (maybeCreateGoogRequire host sf orig call newIdent st)) = moduleVarCounter st"
  by (simp add: maybeCreateGoogRequire_def Let_def split: sum.splits option.splits prod.splits)

lemma visit_call_counter:
  assumes "kind n = ExpressionStatement e" "kind e = CallExpression f args"
    "\<not> isEsModuleProperty n"
  shows "moduleVarCounter (snd (visitTopLevelStatement host sf n st)) = moduleVarCounter st + 1"
proof -
  let ?m = "maybeCreateGoogRequire host sf n
                (if isExportStarCallee f then at args 0 else Some e)
                (createIdentifier (fst (nextModuleVar st))) (snd (nextModuleVar st))"
  have "moduleVarCounter (snd ?m) = moduleVarCounter st + 1"
    by (simp add: maybeCreateGoogRequire_counter nextModuleVar_def)
  then show ?thesis
    by (cases ?m rule: prod.exhaust)
       (auto simp: visit_call [OF assms] Let_def push_def split: sum.splits option.splits)
qed

lemma visit_counter:
  "moduleVarCounter st \<le> moduleVarCounter (snd (visitTopLevelStatement host sf n st))"
proof (cases "kind n")
  case (ExpressionStatement e)
  show ?thesis
  proof (cases "isUseStrict n \<or> isEsModuleProperty n")
    case True
    then show ?thesis
      using ExpressionStatement by (auto simp: visitTopLevelStatement_def push_def)
  next
    case False
    show ?thesis
    proof (cases "kind e")
      case (CallExpression f args)
      from visit_call_counter [OF ExpressionStatement CallExpression, of host sf st] False
      show ?thesis by simp
    next
      case (BinaryExpression l op r)
      show ?thesis
        using ExpressionStatement BinaryExpression False
        by (cases "rewriteModuleExportsAssignment n")
           (auto simp: visitTopLevelStatement_def push_def)
    qed (use ExpressionStatement False in
          \<open>auto simp: visitTopLevelStatement_def push_def rewriteModuleExportsAssignment_def\<close>)
  qed
next
  case (VariableStatement ds)
  have "moduleVarCounter s = moduleVarCounter st"
    if "maybeCreateGoogRequire host sf n c nm st = (r, s)" for c nm r s
    using maybeCreateGoogRequire_counter [of host sf n c nm st] that by simp
  then show ?thesis
    using VariableStatement
    by (auto simp: visitTopLevelStatement_def push_def
        split: list.splits variableDeclaration.splits option.splits prod.splits sum.splits)
qed (auto simp: visitTopLevelStatement_def push_def)

lemma visits_counter:
  "moduleVarCounter st \<le> moduleVarCounter (snd (visitTopLevelStatements host sf xs st))"
proof (induction xs arbitrary: st)
  case Nil
  then show ?case by simp
next
  case (Cons x xs)
  obtain r s where v: "visitTopLevelStatement host sf x st = (r, s)" by force
  from visit_counter [of st host sf x] v have le: "moduleVarCounter st \<le> moduleVarCounter s"
    by simp
  show ?case
  proof (cases r)
    case None
    with v Cons.IH [of s] le show ?thesis by simp
  next
    case (Some e)
    with v le show ?thesis by simp
  qed
qed

lemma visit_table_identifiers:
  assumes inv: "\<forall>k b. namespaceToModuleVarName st k = Some b \<longrightarrow> isIdentifier b"
    and v: "visitTopLevelStatement host sf n st = (r, st')"
  shows "\<forall>k b. namespaceToModuleVarName st' k = Some b \<longrightarrow> isIdentifier b"
proof (cases "importSpecifier n")
  case None
  with visit_nonimport [OF None v] inv show ?thesis by simp
next
  case (Some u)
  from visit_import [OF Some refl, of host sf st] v
  have t: "namespaceToModuleVarName st' =
        (case namespaceToModuleVarName st (stringLiteralText (importPathToGoogNamespace host sf u)) of
           None \<Rightarrow> (namespaceToModuleVarName st)
              (stringLiteralText (importPathToGoogNamespace host sf u) \<mapsto> boundIdentifier n st)
         | Some _ \<Rightarrow> namespaceToModuleVarName st)"
    by auto
  show ?thesis
    unfolding t using inv boundIdentifier_isIdentifier [OF Some, of st]
    by (auto split: option.splits if_splits)
qed

lemma visits_table_identifiers:
  assumes "\<forall>k b. namespaceToModuleVarName st k = Some b \<longrightarrow> isIdentifier b"
  shows "\<forall>k b. namespaceToModuleVarName (snd (visitTopLevelStatements host sf xs st)) k = Some b
           \<longrightarrow> isIdentifier b"
  using assms
proof (induction xs arbitrary: st)
  case Nil
  then show ?case by simp
next
  case (Cons x xs)
  obtain r s where v: "visitTopLevelStatement host sf x st = (r, s)" by force
  note s = visit_table_identifiers [OF Cons.prems v]
  show ?case
  proof (cases r)
    case None
    with v Cons.IH [OF s] show ?thesis by simp
  next
    case (Some e)
    with v s show ?thesis by simp
  qed
qed

lemma initial_table_identifiers:
  "\<forall>k b. namespaceToModuleVarName (stateAfter host sf xs (initialState manifest)) k = Some b
     \<longrightarrow> isIdentifier b"
  unfolding stateAfter_def
  by (rule visits_table_identifiers) (simp add: initialState_def)

text \<open>What the visit of a statement that imports nothing puts into the output.\<close>

lemma visit_nonimport_output:
  assumes ni: "importSpecifier n = None"
    and v: "visitTopLevelStatement host sf n st = (None, st')"
  shows "\<exists>x. stmts st' = stmts st @ [x] \<and>
           (x = n \<or> (isUseStrict n \<or> isEsModuleProperty n) \<and> x = createNotEmittedStatement n \<or>
            rewriteModuleExportsAssignment n = Some x)"
proof (cases "kind n")
  case (ExpressionStatement e)
  show ?thesis
  proof (cases "isUseStrict n \<or> isEsModuleProperty n")
    case True
    then show ?thesis
      using ExpressionStatement v by (auto simp: visitTopLevelStatement_def push_def)
  next
    case False
    show ?thesis
    proof (cases "kind e")
      case (CallExpression f args)
      from visit_call_nonimport [OF ExpressionStatement CallExpression _ ni, of host sf st] False v
      show ?thesis
        by (auto simp: push_def nextModuleVar_def)
    next
      case (BinaryExpression l op r)
      show ?thesis
        using ExpressionStatement BinaryExpression False v
        by (cases "rewriteModuleExportsAssignment n")
           (auto simp: visitTopLevelStatement_def push_def)
    qed (use ExpressionStatement False v in
          \<open>auto simp: visitTopLevelStatement_def push_def rewriteModuleExportsAssignment_def\<close>)
  qed
next
  case (VariableStatement ds)
  show ?thesis
  proof (cases "\<exists>name i. ds = [VariableDeclaration name (Some i)] \<and> isIdentifier name \<and>
      isCallExpression i")
    case True
    then obtain name i where ds: "ds = [VariableDeclaration name (Some i)]"
      and nm: "isIdentifier name" and ic: "isCallExpression i" by blast
    have "requireSpecifier i = None"
      using ni VariableStatement ds nm ic by (simp add: importSpecifier_def)
    from maybeCreateGoogRequire_call_other [OF ic this]
    have "maybeCreateGoogRequire host sf n (Some i) name st = (Inr None, st)" .
    then show ?thesis
      using VariableStatement ds nm ic v by (auto simp: visitTopLevelStatement_def push_def)
  next
    case False
    then have "visitTopLevelStatement host sf n st = (None, push n st)"
      using VariableStatement
      by (simp add: visitTopLevelStatement_def
          split: list.splits variableDeclaration.splits option.splits)
    then show ?thesis using v by (auto simp: push_def)
  qed
qed (use v in \<open>auto simp: visitTopLevelStatement_def push_def\<close>)

lemma rewriteModuleExports_original:
  "rewriteModuleExportsAssignment n = Some x \<Longrightarrow>
     original x = Some n \<and> isExpressionStatement x \<and> isModuleExportsAssignment n"
  by (auto simp: rewriteModuleExportsAssignment_def isModuleExportsAssignment_def
      setOriginalNode_def createStatement_def isExpressionStatement_def
      split: syntaxKind.splits if_splits)

lemma isStarWrapper_call:
  "kind n = ExpressionStatement e \<Longrightarrow> kind e = CallExpression f args \<Longrightarrow>
     isStarWrapper n = isExportStarCallee f"
  by (simp add: isStarWrapper_def)

text \<open>A statement that is not a call of a star re-export wrapper gives one statement.\<close>

lemma visit_nonstar:
  assumes ns: "\<not> isStarWrapper n"
  shows "\<exists>st' x. visitTopLevelStatement host sf n st = (None, st') \<and>
           stmts st' = stmts st @ [x] \<and> (x = n \<or> original x = Some n)"
proof (cases "importSpecifier n")
  case (Some u)
  have "\<not> isStarReExport n"
    using ns by (auto simp: isStarReExport_def isStarWrapper_def split: syntaxKind.splits)
  then have "outputCount n = 1" by (simp add: outputCount_def)
  with visit_import [OF Some refl, of host sf st] show ?thesis
    by (auto simp: requireDeclaration_def setOriginalNode_def)
next
  case None
  have "fst (visitTopLevelStatement host sf n st) = None"
  proof (cases "kind n")
    case (ExpressionStatement e)
    show ?thesis
    proof (cases "isUseStrict n \<or> isEsModuleProperty n")
      case True
      then show ?thesis
        using ExpressionStatement by (auto simp: visitTopLevelStatement_def)
    next
      case False
      show ?thesis
      proof (cases "kind e")
        case (CallExpression f args)
        have nf: "\<not> isExportStarCallee f"
          using ns ExpressionStatement CallExpression by (simp add: isStarWrapper_call)
        have ce: "isCallExpression e" using CallExpression by (simp add: isCallExpression_def)
        have "requireSpecifier e = None"
          using None nf by (simp add: importSpecifier_call [OF ExpressionStatement CallExpression])
        from maybeCreateGoogRequire_call_other [OF ce this] nf False show ?thesis
          by (simp add: visit_call [OF ExpressionStatement CallExpression] Let_def)
      next
        case (BinaryExpression l op r)
        show ?thesis
          using ExpressionStatement BinaryExpression False
          by (cases "rewriteModuleExportsAssignment n")
             (auto simp: visitTopLevelStatement_def)
      qed (use ExpressionStatement False in
            \<open>auto simp: visitTopLevelStatement_def rewriteModuleExportsAssignment_def\<close>)
    qed
  next
    case (VariableStatement ds)
    show ?thesis
    proof (cases "\<exists>name i. ds = [VariableDeclaration name (Some i)] \<and> isIdentifier name \<and>
        isCallExpression i")
      case True
      then obtain name i where ds: "ds = [VariableDeclaration name (Some i)]"
        and nm: "isIdentifier name" and ic: "isCallExpression i" by blast
      have "requireSpecifier i = None"
        using None VariableStatement ds nm ic by (simp add: importSpecifier_def)
      from maybeCreateGoogRequire_call_other [OF ic this]
      have "maybeCreateGoogRequire host sf n (Some i) name st = (Inr None, st)" .
      then show ?thesis
        using VariableStatement ds nm ic by (auto simp: visitTopLevelStatement_def)
    next
      case False
      then have "visitTopLevelStatement host sf n st = (None, push n st)"
        using VariableStatement
        by (simp add: visitTopLevelStatement_def
            split: list.splits variableDeclaration.splits option.splits)
      then show ?thesis by simp
    qed
  qed (auto simp: visitTopLevelStatement_def)
  then obtain st' where v: "visitTopLevelStatement host sf n st = (None, st')"
    by (cases "visitTopLevelStatement host sf n st") auto
  from visit_nonimport_output [OF None v] obtain x where
    x: "stmts st' = stmts st @ [x]"
      "x = n \<or> (isUseStrict n \<or> isEsModuleProperty n) \<and> x = createNotEmittedStatement n \<or>
       rewriteModuleExportsAssignment n = Some x"
    by blast
  from x(2) have "x = n \<or> original x = Some n"
    by (auto simp: createNotEmittedStatement_def dest: rewriteModuleExports_original)
  with v x(1) show ?thesis by blast
qed

text \<open>A statement of none of the shapes the rewrite knows is copied.\<close>

lemma untouched_import: "untouched n \<Longrightarrow> importSpecifier n = None"
proof (cases "kind n")
  case (ExpressionStatement e)
  assume u: "untouched n"
  show ?thesis
  proof (cases "kind e")
    case (CallExpression f args)
    have nf: "\<not> isExportStarCallee f"
      using u ExpressionStatement CallExpression by (simp add: untouched_def isStarWrapper_call)
    have ce: "isCallExpression e" using CallExpression by (simp add: isCallExpression_def)
    have "requireArgument e = None"
      using u ExpressionStatement by (simp add: untouched_def isRequireImport_def)
    from requireArgument_None [OF ce this] nf show ?thesis
      by (simp add: importSpecifier_call [OF ExpressionStatement CallExpression])
  qed (use ExpressionStatement in \<open>simp_all add: importSpecifier_def\<close>)
next
  case (VariableStatement ds)
  assume u: "untouched n"
  show ?thesis
  proof (cases "\<exists>name i. ds = [VariableDeclaration name (Some i)] \<and> isIdentifier name \<and>
        isCallExpression i")
    case True
    then obtain name i where ds: "ds = [VariableDeclaration name (Some i)]"
      and nm: "isIdentifier name" and ic: "isCallExpression i" by blast
    have "requireArgument i = None"
      using u VariableStatement ds nm by (simp add: untouched_def isRequireImport_def)
    from requireArgument_None [OF ic this] show ?thesis
      using VariableStatement ds by (simp add: importSpecifier_def)
  next
    case False
    then show ?thesis
      using VariableStatement
      by (auto simp add: importSpecifier_def
          split: list.splits variableDeclaration.splits option.splits)
  qed
qed (simp_all add: importSpecifier_def)

lemma untouched_copied:
  assumes u: "untouched n"
  shows "fst (visitTopLevelStatement host sf n st) = None \<and> emitted host sf n st = [n]"
proof -
  from u have ns: "\<not> isStarWrapper n" by (simp add: untouched_def)
  from visit_nonstar [OF ns, of host sf st] obtain st' x where
    v: "visitTopLevelStatement host sf n st = (None, st')" and
    x: "stmts st' = stmts st @ [x]" by blast
  from visit_nonimport_output [OF untouched_import [OF u] v] x obtain
    y: "x = n \<or> (isUseStrict n \<or> isEsModuleProperty n) \<and> x = createNotEmittedStatement n \<or>
        rewriteModuleExportsAssignment n = Some x"
    by auto
  have a: "rewriteModuleExportsAssignment n \<noteq> Some x"
    using u by (auto simp: untouched_def dest: rewriteModuleExports_original)
  from y a u have "x = n" by (auto simp: untouched_def)
  with v x show ?thesis by (simp add: emitted_def)
qed

lemma star_reexport_emitted:
  assumes callee: "w = ''__exportStar'' \<or> w = ''__export''" and url: "url \<noteq> []"
    and c: "callee = Node (Identifier w) o1"
    and i: "inner = Node (CallExpression (Node (Identifier ''require'') o2)
                       [Node (StringLiteral url q) o3]) o4"
    and n: "n = Node (ExpressionStatement (Node (CallExpression callee (inner # others)) o5)) o6"
    and ident: "ident = Node (Identifier (''tsickle_module_'' @ decimal (moduleVarCounter st) @ ''_''))
                          None"
    and ns: "ns = stringLiteralText (importPathToGoogNamespace host sf url)"
    and tab: "\<forall>bound. namespaceToModuleVarName st ns = Some bound \<longrightarrow> isIdentifier bound"
  shows "emitted host sf n st =
        [Node (VariableStatement
           [VariableDeclaration ident
              (Some (case namespaceToModuleVarName st ns of
                       None \<Rightarrow>
                         Node (CallExpression
                           (Node (PropertyAccessExpression (Node (Identifier ''goog'') None)
                              ''require'') None)
                           [Node (StringLiteral ns True) None]) None
                     | Some bound \<Rightarrow> bound))])
           (Some n),
         Node (ExpressionStatement
           (Node (CallExpression callee
              (ident # map (\<lambda>a. if 0 < getExpressionPrecedence a then a
                                 else Node (ParenthesizedExpression a) None)
                         (take 1 others))) None)) None]"
proof -
  have id: "ident = createIdentifier (''tsickle_module_'' @ decimal (moduleVarCounter st) @ ''_'')"
    using ident by (simp add: createIdentifier_def)
  have pi: "parenthesizeExpressionForList ident = ident"
    using ident by (simp add: parenthesize_identifier isIdentifier_def)
  have init: "parenthesizeExpressionForList
       (case namespaceToModuleVarName st ns of
          None \<Rightarrow> createGoogCall ''require'' (createSingleQuoteStringLiteral ns)
        | Some bound \<Rightarrow> bound) =
       (case namespaceToModuleVarName st ns of
          None \<Rightarrow>
            Node (CallExpression
              (Node (PropertyAccessExpression (Node (Identifier ''goog'') None) ''require'') None)
              [Node (StringLiteral ns True) None]) None
        | Some bound \<Rightarrow> bound)"
    using tab by (cases "namespaceToModuleVarName st ns")
      (simp_all add: googRequire_eq parenthesize_identifier)
  have call: "createStatement (createCall callee (ident # take 1 others)) =
      Node (ExpressionStatement
           (Node (CallExpression callee
              (ident # map (\<lambda>a. if 0 < getExpressionPrecedence a then a
                                 else Node (ParenthesizedExpression a) None)
                         (take 1 others))) None)) None"
  proof -
    have "parenthesizeExpressionForList =
        (\<lambda>a. if 0 < getExpressionPrecedence a then a else Node (ParenthesizedExpression a) None)"
      by (rule ext) (simp add: parenthesize_eq)
    then have "map parenthesizeExpressionForList (take 1 others) =
        map (\<lambda>a. if 0 < getExpressionPrecedence a then a
                  else Node (ParenthesizedExpression a) None) (take 1 others)"
      by simp
    then show ?thesis by (simp add: createStatement_def createCall_def pi)
  qed
  from star_reexport_visit [OF callee url c i n id ns] call
  show ?thesis by (simp add: requireDeclaration_eq init)
qed

lemma visit_import_expression:
  assumes imp: "importSpecifier n = Some u" and es: "isExpressionStatement n"
  shows "\<exists>st' d tail.
     visitTopLevelStatement host sf n st = (None, st') \<and>
     stmts st' = stmts st @
        requireDeclaration n (createIdentifier (fst (nextModuleVar st))) d # tail \<and>
     (\<forall>t \<in> set tail. isExpressionStatement t) \<and>
     moduleVarCounter st' = moduleVarCounter st + 1"
  using imp
proof (cases rule: importSpecifier_SomeE)
  case (star e f a as)
  have nes: "\<not> isEsModuleProperty n"
    using star(1,2) isExportStarCallee_identifier [OF star(3)]
    by (rule not_esModule_identifier_callee)
  show ?thesis
    using star(3)
    by (auto simp add: visit_call [OF star(1,2) nes] at_def
        maybeCreateGoogRequire_import [OF star(4)]
        Let_def push_def nextModuleVar_def isExpressionStatement_def createStatement_def
        split: option.splits)
next
  case (plain e f args)
  have nes: "\<not> isEsModuleProperty n"
    using plain(1,2) requireSpecifier_callee [OF plain(4,2)]
    by (rule not_esModule_identifier_callee)
  show ?thesis
    using plain(3)
    by (auto simp add: visit_call [OF plain(1,2) nes] maybeCreateGoogRequire_import [OF plain(4)]
        Let_def push_def nextModuleVar_def split: option.splits)
next
  case (var name i)
  with es show ?thesis by (simp add: isExpressionStatement_def)
qed

text \<open>
  A declaration that the visit of an expression statement has put into the output binds a
  synthetic identifier of a counter value below the one the run has reached.
\<close>

lemma earlier_synthetic_names:
  assumes run: "visitTopLevelStatements host sf (a @ m # b) st0 = (None, s1)"
    and es: "isExpressionStatement m"
    and mem: "Node (VariableStatement [VariableDeclaration name init]) orig
                \<in> set (emitted host sf m (stateAfter host sf a st0))"
  shows "\<exists>k < moduleVarCounter s1.
           name = Node (Identifier (''tsickle_module_'' @ decimal k @ ''_'')) None"
proof -
  from run obtain sa where sa: "visitTopLevelStatements host sf a st0 = (None, sa)"
    and r1: "visitTopLevelStatements host sf (m # b) sa = (None, s1)"
    by (auto simp: visits_append split: prod.splits option.splits)
  from r1 obtain sm where v: "visitTopLevelStatement host sf m sa = (None, sm)"
    and r2: "visitTopLevelStatements host sf b sm = (None, s1)"
    by (auto split: prod.splits option.splits)
  have st: "stateAfter host sf a st0 = sa" using sa by (simp add: stateAfter_def)
  have le: "moduleVarCounter sm \<le> moduleVarCounter s1"
    using visits_counter [of sm host sf b] r2 by simp
  show ?thesis
  proof (cases "importSpecifier m")
    case None
    from visit_nonimport_output [OF None v] obtain x where
      x: "stmts sm = stmts sa @ [x]"
      "x = m \<or> (isUseStrict m \<or> isEsModuleProperty m) \<and> x = createNotEmittedStatement m \<or>
       rewriteModuleExportsAssignment m = Some x"
      by blast
    have "emitted host sf m sa = [x]" using v x(1) by (simp add: emitted_def)
    with mem st have "x = Node (VariableStatement [VariableDeclaration name init]) orig" by simp
    with x(2) es show ?thesis
      by (auto simp: isExpressionStatement_def createNotEmittedStatement_def
          dest: rewriteModuleExports_original)
  next
    case (Some u)
    from visit_import_expression [OF Some es, of host sf sa] v obtain d tail where
      out: "stmts sm = stmts sa @
        requireDeclaration m (createIdentifier (fst (nextModuleVar sa))) d # tail"
      and tl: "\<forall>t \<in> set tail. isExpressionStatement t"
      and cnt: "moduleVarCounter sm = moduleVarCounter sa + 1"
      by auto
    have "emitted host sf m sa =
        requireDeclaration m (createIdentifier (fst (nextModuleVar sa))) d # tail"
      using v out by (simp add: emitted_def)
    with mem st tl have "name = createIdentifier (fst (nextModuleVar sa))"
      by (auto simp: requireDeclaration_eq isExpressionStatement_def)
    then have "name = Node (Identifier (''tsickle_module_'' @ decimal (moduleVarCounter sa) @ ''_''))
        None"
      by (simp add: createIdentifier_def nextModuleVar_def)
    moreover have "moduleVarCounter sa < moduleVarCounter s1" using cnt le by simp
    ultimately show ?thesis by blast
  qed
qed

text \<open>
  C5, as the code has it: Take a run of the loop from the initial state that returns, and
  in it a star re-export \<^verbatim>\<open>__exportStar(require('<url>'), ...)\<close> or
  \<^verbatim>\<open>__export(require('<url>'))\<close> whose first argument is a call with a specifier that is
  not empty. It is rewritten into two statements, one after the other. The first is a
  variable declaration, with the old statement as its original node, that binds the next
  synthetic identifier \<^verbatim>\<open>tsickle_module_<counter>_\<close> to a new call \<^verbatim>\<open>goog.require\<close> of the
  namespace, or to the identifier already bound to the namespace. The second is a call of
  the same callee with that identifier as first argument, followed by the second argument
  of the old call if there is one, which the factory of the call puts in parentheses when
  its precedence is not above that of the comma. The synthetic identifier is not the name
  of a declaration that the rewrite has made earlier in the run for an expression
  statement. And for every statement \<open>m\<close> of the file the output of the run is the output
  of the statements before \<open>m\<close>, then the statements emitted for \<open>m\<close>, then the output
  of the statements after it; a statement that is not a call of a star re-export wrapper
  gives one statement, which is the statement itself or has it as its original node; and
  a statement of none of the shapes the rewrite looks for gives itself.
\<close>

theorem star_reexport_split:
  assumes callee: "w = ''__exportStar'' \<or> w = ''__export''" and url: "url \<noteq> []"
    and c: "callee = Node (Identifier w) o1"
    and i: "inner = Node (CallExpression (Node (Identifier ''require'') o2)
                       [Node (StringLiteral url q) o3]) o4"
    and n: "n = Node (ExpressionStatement (Node (CallExpression callee (inner # others)) o5)) o6"
    and run: "fst (visitTopLevelStatements host sf (pre @ n # post) (initialState manifest)) = None"
    and s1: "s1 = stateAfter host sf pre (initialState manifest)"
    and ident: "ident = Node (Identifier (''tsickle_module_'' @ decimal (moduleVarCounter s1) @ ''_''))
                          None"
    and ns: "ns = stringLiteralText (importPathToGoogNamespace host sf url)"
  shows "emitted host sf n s1 =
        [Node (VariableStatement
           [VariableDeclaration ident
              (Some (case namespaceToModuleVarName s1 ns of
                       None \<Rightarrow>
                         Node (CallExpression
                           (Node (PropertyAccessExpression (Node (Identifier ''goog'') None)
                              ''require'') None)
                           [Node (StringLiteral ns True) None]) None
                     | Some bound \<Rightarrow> bound))])
           (Some n),
         Node (ExpressionStatement
           (Node (CallExpression callee
              (ident # map (\<lambda>a. if 0 < getExpressionPrecedence a then a
                                 else Node (ParenthesizedExpression a) None)
                         (take 1 others))) None)) None] \<and>
     (\<forall>bound. namespaceToModuleVarName s1 ns = Some bound \<longrightarrow> isIdentifier bound) \<and>
     (\<forall>a m b name init orig.
        pre = a @ m # b \<and> isExpressionStatement m \<and>
        Node (VariableStatement [VariableDeclaration name init]) orig
          \<in> set (emitted host sf m (stateAfter host sf a (initialState manifest)))
        \<longrightarrow> name \<noteq> ident) \<and>
     (\<forall>a m b. pre @ n # post = a @ m # b \<longrightarrow>
        outputOf host sf (pre @ n # post) (initialState manifest) =
          outputOf host sf a (initialState manifest) @
          emitted host sf m (stateAfter host sf a (initialState manifest)) @
          outputOf host sf b (stateAfter host sf (a @ [m]) (initialState manifest)) \<and>
        (\<not> isStarWrapper m \<longrightarrow>
           (\<exists>x. emitted host sf m (stateAfter host sf a (initialState manifest)) = [x] \<and>
                (x = m \<or> original x = Some m))) \<and>
        (untouched m \<longrightarrow>
           emitted host sf m (stateAfter host sf a (initialState manifest)) = [m]))"
proof -
  let ?st0 = "initialState manifest"
  obtain s3 where s3: "visitTopLevelStatements host sf (pre @ n # post) ?st0 = (None, s3)"
    using run by (cases "visitTopLevelStatements host sf (pre @ n # post) ?st0") auto
  then obtain t1 where t1: "visitTopLevelStatements host sf pre ?st0 = (None, t1)"
    by (auto simp: visits_append split: prod.splits option.splits)
  have t1s1: "t1 = s1" using t1 s1 by (simp add: stateAfter_def)
  have tab: "\<forall>bound. namespaceToModuleVarName s1 ns = Some bound \<longrightarrow> isIdentifier bound"
    unfolding s1 using initial_table_identifiers [of host sf pre manifest] by blast
  note A = star_reexport_emitted [OF callee url c i n ident ns tab]
  have B: "name \<noteq> ident"
    if "pre = a @ m # b" "isExpressionStatement m"
      "Node (VariableStatement [VariableDeclaration name init]) orig
          \<in> set (emitted host sf m (stateAfter host sf a ?st0))"
    for a m b name init orig
  proof -
    from t1 that(1) have "visitTopLevelStatements host sf (a @ m # b) ?st0 = (None, s1)"
      using t1s1 by simp
    from earlier_synthetic_names [OF this that(2,3)] obtain k where
      k: "k < moduleVarCounter s1"
        "name = Node (Identifier (''tsickle_module_'' @ decimal k @ ''_'')) None"
      by blast
    then show ?thesis using ident by (auto dest: decimal_inj)
  qed
  have D: "outputOf host sf (pre @ n # post) ?st0 =
          outputOf host sf a ?st0 @ emitted host sf m (stateAfter host sf a ?st0) @
          outputOf host sf b (stateAfter host sf (a @ [m]) ?st0) \<and>
        (\<not> isStarWrapper m \<longrightarrow>
           (\<exists>x. emitted host sf m (stateAfter host sf a ?st0) = [x] \<and>
                (x = m \<or> original x = Some m))) \<and>
        (untouched m \<longrightarrow> emitted host sf m (stateAfter host sf a ?st0) = [m])"
    if eq: "pre @ n # post = a @ m # b" for a m b
  proof -
    from run eq have "fst (visitTopLevelStatements host sf (a @ m # b) ?st0) = None" by simp
    from output_in_order [OF this] eq
    have 1: "outputOf host sf (pre @ n # post) ?st0 =
          outputOf host sf a ?st0 @ emitted host sf m (stateAfter host sf a ?st0) @
          outputOf host sf b (stateAfter host sf (a @ [m]) ?st0)" by simp
    have 2: "\<exists>x. emitted host sf m (stateAfter host sf a ?st0) = [x] \<and>
                (x = m \<or> original x = Some m)" if "\<not> isStarWrapper m"
      using visit_nonstar [OF that, of host sf "stateAfter host sf a ?st0"]
      by (auto simp: emitted_def)
    have 3: "emitted host sf m (stateAfter host sf a ?st0) = [m]" if "untouched m"
      using untouched_copied [OF that] by simp
    from 1 2 3 show ?thesis by blast
  qed
  from A tab B D show ?thesis by blast
qed

theorem star_reexport_split_witness:
  "emitted exampleHost (exampleFile [])
     (callStatement ''__exportStar'' [requireCall ''./a'', Node (Identifier ''exports'') None])
     (stateAfter exampleHost (exampleFile [])
        [callStatement ''foo'' [], requireStatement ''./b''] (initialState [])) =
   [Node (VariableStatement
      [VariableDeclaration (Node (Identifier ''tsickle_module_3_'') None)
         (Some (Node (CallExpression
            (Node (PropertyAccessExpression (Node (Identifier ''goog'') None) ''require'') None)
            [Node (StringLiteral ''./a'' True) None]) None))])
      (Some (callStatement ''__exportStar''
               [requireCall ''./a'', Node (Identifier ''exports'') None])),
    callStatement ''__exportStar''
      [Node (Identifier ''tsickle_module_3_'') None, Node (Identifier ''exports'') None]] \<and>
   emitted exampleHost (exampleFile []) (callStatement ''foo'' [])
     (stateAfter exampleHost (exampleFile []) [] (initialState [])) = [callStatement ''foo'' []] \<and>
   outputOf exampleHost (exampleFile [])
     ([callStatement ''foo'' [], requireStatement ''./b''] @
      callStatement ''__exportStar'' [requireCall ''./a'', Node (Identifier ''exports'') None] #
      [requireVariable ''c'' ''./a'']) (initialState []) =
   outputOf exampleHost (exampleFile []) [callStatement ''foo'' [], requireStatement ''./b'']
     (initialState []) @
   emitted exampleHost (exampleFile [])
     (callStatement ''__exportStar'' [requireCall ''./a'', Node (Identifier ''exports'') None])
     (stateAfter exampleHost (exampleFile [])
        [callStatement ''foo'' [], requireStatement ''./b''] (initialState [])) @
   [Node (VariableStatement
      [VariableDeclaration (Node (Identifier ''c'') None)
         (Some (Node (Identifier ''tsickle_module_3_'') None))])
      (Some (requireVariable ''c'' ''./a''))]"
proof -
  let ?F = "exampleFile []"
  let ?pre = "[callStatement ''foo'' [], requireStatement ''./b'']"
  let ?n = "callStatement ''__exportStar'' [requireCall ''./a'', Node (Identifier ''exports'') None]"
  let ?post = "[requireVariable ''c'' ''./a'']"
  have w: "''__exportStar'' = ''__exportStar'' \<or> ''__exportStar'' = ''__export''" by simp
  have url: "''./a'' \<noteq> []" by simp
  have n: "?n = Node (ExpressionStatement (Node (CallExpression
      (Node (Identifier ''__exportStar'') None)
      (Node (CallExpression (Node (Identifier ''require'') None)
          [Node (StringLiteral ''./a'' False) None]) None # [Node (Identifier ''exports'') None]))
      None)) None"
    by (simp add: callStatement_def requireCall_def)
  have run: "fst (visitTopLevelStatements exampleHost ?F (?pre @ ?n # ?post) (initialState []))
      = None"
    by code_simp
  note T = star_reexport_split [where host = exampleHost and sf = ?F and manifest = "[]"
      and pre = ?pre and post = ?post, OF w url refl refl n run refl refl refl]
  have cnt: "decimal (moduleVarCounter (stateAfter exampleHost ?F ?pre (initialState []))) = ''3''"
    by code_simp
  have ns: "stringLiteralText (importPathToGoogNamespace exampleHost ?F ''./a'') = ''./a''"
    by code_simp
  have tab: "namespaceToModuleVarName (stateAfter exampleHost ?F ?pre (initialState [])) ''./a''
      = None"
    by code_simp
  have arg: "map (\<lambda>a. if 0 < getExpressionPrecedence a then a
                       else Node (ParenthesizedExpression a) None)
               (take 1 [Node (Identifier ''exports'') None]) = [Node (Identifier ''exports'') None]"
    by code_simp
  have u: "untouched (callStatement ''foo'' [])" by code_simp
  have eq: "?pre @ ?n # ?post = [] @ callStatement ''foo'' [] # (requireStatement ''./b'' # ?n # ?post)"
    by simp
  have post: "outputOf exampleHost ?F ?post (stateAfter exampleHost ?F (?pre @ [?n]) (initialState []))
      = [Node (VariableStatement
          [VariableDeclaration (Node (Identifier ''c'') None)
             (Some (Node (Identifier ''tsickle_module_3_'') None))])
          (Some (requireVariable ''c'' ''./a''))]"
    by code_simp
  from T have A: "emitted exampleHost ?F ?n (stateAfter exampleHost ?F ?pre (initialState [])) =
     [Node (VariableStatement
           [VariableDeclaration (Node (Identifier (''tsickle_module_'' @
                decimal (moduleVarCounter (stateAfter exampleHost ?F ?pre (initialState []))) @ ''_''))
                          None)
              (Some (case namespaceToModuleVarName (stateAfter exampleHost ?F ?pre (initialState []))
                            (stringLiteralText (importPathToGoogNamespace exampleHost ?F ''./a'')) of
                       None \<Rightarrow>
                         Node (CallExpression
                           (Node (PropertyAccessExpression (Node (Identifier ''goog'') None)
                              ''require'') None)
                           [Node (StringLiteral
                              (stringLiteralText (importPathToGoogNamespace exampleHost ?F ''./a''))
                              True) None]) None
                     | Some bound \<Rightarrow> bound))])
           (Some ?n),
         Node (ExpressionStatement
           (Node (CallExpression (Node (Identifier ''__exportStar'') None)
              (Node (Identifier (''tsickle_module_'' @
                decimal (moduleVarCounter (stateAfter exampleHost ?F ?pre (initialState []))) @ ''_''))
                          None # map (\<lambda>a. if 0 < getExpressionPrecedence a then a
                                 else Node (ParenthesizedExpression a) None)
                         (take 1 [Node (Identifier ''exports'') None]))) None)) None]"
    by blast
  from T eq u have B: "emitted exampleHost ?F (callStatement ''foo'' [])
     (stateAfter exampleHost ?F [] (initialState [])) = [callStatement ''foo'' []]"
    by blast
  from T have C: "outputOf exampleHost ?F (?pre @ ?n # ?post) (initialState []) =
          outputOf exampleHost ?F ?pre (initialState []) @
          emitted exampleHost ?F ?n (stateAfter exampleHost ?F ?pre (initialState [])) @
          outputOf exampleHost ?F ?post (stateAfter exampleHost ?F (?pre @ [?n]) (initialState []))"
    by blast
  have A': "emitted exampleHost ?F ?n (stateAfter exampleHost ?F ?pre (initialState [])) =
   [Node (VariableStatement
      [VariableDeclaration (Node (Identifier ''tsickle_module_3_'') None)
         (Some (Node (CallExpression
            (Node (PropertyAccessExpression (Node (Identifier ''goog'') None) ''require'') None)
            [Node (StringLiteral ''./a'' True) None]) None))])
      (Some ?n),
    callStatement ''__exportStar''
      [Node (Identifier ''tsickle_module_3_'') None, Node (Identifier ''exports'') None]]"
    using A unfolding cnt ns tab arg by (simp add: callStatement_def)
  from A' B C show ?thesis unfolding post by blast
qed


text \<open>
  The claim C5 itself (any second argument preserved; a fresh identifier) fails for
  \<^verbatim>\<open>__exportStar(require('./a'), new.target);\<close>, where the second argument of the new call
  is \<^verbatim>\<open>(new.target)\<close>, a parenthesized expression around the old one; and in a file that
  declares \<^verbatim>\<open>var tsickle_module_1_ = require('./b');\<close> before a star re-export, the
  identifier of the new declaration is \<^verbatim>\<open>tsickle_module_1_\<close> again.
\<close>

theorem star_reexport_argument_parenthesized:
  "emitted exampleHost (exampleFile [])
     (callStatement ''__exportStar'' [requireCall ''./a'', newTarget]) (initialState []) =
   [Node (VariableStatement
      [VariableDeclaration (Node (Identifier ''tsickle_module_1_'') None)
         (Some (googRequire ''./a''))])
      (Some (callStatement ''__exportStar'' [requireCall ''./a'', newTarget])),
    callStatement ''__exportStar''
      [Node (Identifier ''tsickle_module_1_'') None,
       Node (ParenthesizedExpression newTarget) None]] \<and>
   outputOf exampleHost (exampleFile [])
     [requireVariable ''tsickle_module_1_'' ''./b'', callStatement ''__export'' [requireCall ''./a'']]
     (initialState []) =
   [Node (VariableStatement
      [VariableDeclaration (Node (Identifier ''tsickle_module_1_'') None)
         (Some (googRequire ''./b''))])
      (Some (requireVariable ''tsickle_module_1_'' ''./b'')),
    Node (VariableStatement
      [VariableDeclaration (Node (Identifier ''tsickle_module_1_'') None)
         (Some (googRequire ''./a''))])
      (Some (callStatement ''__export'' [requireCall ''./a''])),
    callStatement ''__export'' [Node (Identifier ''tsickle_module_1_'') None]]"
  by code_simp


end
